theory Spec2Isabelle
  imports Main "HOL-Library.Sublist"
begin

section \<open>Python values\<close>

text \<open>
  The workflow handles values decoded from JSON (GitHub responses, streamed model
  events, the model's final answer) without checking their types, so the model keeps
  them dynamically typed. A Python \<open>str\<close> is a \<open>string\<close>; a character above ASCII
  stands for the bytes of its UTF-8 encoding. A float is kept as the two things the
  workflow can observe of it: whether it is non-zero and its \<open>repr\<close>. A \<open>dict\<close> is an
  association list in insertion order, looked up with \<open>map_of\<close>.
\<close>

datatype json =
    JNull
  | JBool bool
  | JInt int
  | JFloat bool string
  | JStr string
  | JList "json list"
  | JDict "(string \<times> json) list"

text \<open>
  Exceptions. All of them derive from Python's \<open>Exception\<close>, so \<open>except Exception\<close>
  catches each one. \<open>ExternalError\<close> stands for whatever a library or a caller-supplied
  callback raises (an httpx transport error, a timeout, a base64 or UTF-8 decoding
  error).
\<close>

datatype exn =
    ValueError string
  | AttributeError string string
  | TypeError string
  | KeyError string
  | RuntimeError string
  | ExternalError string

fun type_name :: "json \<Rightarrow> string" where
  "type_name JNull = ''NoneType''"
| "type_name (JBool _) = ''bool''"
| "type_name (JInt _) = ''int''"
| "type_name (JFloat _ _) = ''float''"
| "type_name (JStr _) = ''str''"
| "type_name (JList _) = ''list''"
| "type_name (JDict _) = ''dict''"

text \<open>\<open>str(e)\<close> for an exception.\<close>

fun str_exn :: "exn \<Rightarrow> string" where
  "str_exn (ValueError m) = m"
| "str_exn (AttributeError t a) =
     [CHR 0x27] @ t @ [CHR 0x27] @ '' object has no attribute '' @ [CHR 0x27] @ a @ [CHR 0x27]"
| "str_exn (TypeError m) = m"
| "str_exn (KeyError k) = [CHR 0x27] @ k @ [CHR 0x27]"
| "str_exn (RuntimeError m) = m"
| "str_exn (ExternalError m) = m"

text \<open>Truth value of an object, as \<open>if x:\<close> and \<open>not x\<close> take it.\<close>

fun truthy :: "json \<Rightarrow> bool" where
  "truthy JNull = False"
| "truthy (JBool b) = b"
| "truthy (JInt i) = (i \<noteq> 0)"
| "truthy (JFloat nz _) = nz"
| "truthy (JStr s) = (s \<noteq> [])"
| "truthy (JList xs) = (xs \<noteq> [])"
| "truthy (JDict kvs) = (kvs \<noteq> [])"

text \<open>\<open>x.get(k, d)\<close>: only a dict has the method.\<close>

fun py_get :: "json \<Rightarrow> string \<Rightarrow> json \<Rightarrow> exn + json" where
  "py_get (JDict kvs) k d = Inr (case map_of kvs k of Some v \<Rightarrow> v | None \<Rightarrow> d)"
| "py_get x k d = Inl (AttributeError (type_name x) ''get'')"

text \<open>\<open>x[k]\<close> with a string key. The texts of the errors are those of Python 3.11.\<close>

fun py_getitem :: "json \<Rightarrow> string \<Rightarrow> exn + json" where
  "py_getitem (JDict kvs) k = (case map_of kvs k of Some v \<Rightarrow> Inr v | None \<Rightarrow> Inl (KeyError k))"
| "py_getitem (JList xs) k = Inl (TypeError ''list indices must be integers or slices, not str'')"
| "py_getitem (JStr s) k =
     Inl (TypeError (''string indices must be integers, not '' @ [CHR 0x27] @ ''str'' @ [CHR 0x27]))"
| "py_getitem x k = Inl (TypeError ([CHR 0x27] @ type_name x @ [CHR 0x27] @ '' object is not subscriptable''))"

text \<open>\<open>x[0]\<close>. A dict decoded from JSON has string keys only, so 0 is never a key.\<close>

fun py_getitem0 :: "json \<Rightarrow> exn + json" where
  "py_getitem0 (JList xs) = (case xs of [] \<Rightarrow> Inl (ExternalError ''list index out of range'') | x # _ \<Rightarrow> Inr x)"
| "py_getitem0 (JStr s) = (case s of [] \<Rightarrow> Inl (ExternalError ''string index out of range'') | c # _ \<Rightarrow> Inr (JStr [c]))"
| "py_getitem0 (JDict kvs) = Inl (KeyError ''0'')"
| "py_getitem0 x = Inl (TypeError ([CHR 0x27] @ type_name x @ [CHR 0x27] @ '' object is not subscriptable''))"

text \<open>
  \<open>x[:n]\<close>. A slice of a dict raises the \<open>TypeError\<close> of Python 3.11 (from 3.12 on it is
  a \<open>KeyError\<close>); the text only ever reaches the \<open>error\<close> field of a result.
\<close>

fun py_slice_to :: "json \<Rightarrow> nat \<Rightarrow> exn + json" where
  "py_slice_to (JList xs) n = Inr (JList (take n xs))"
| "py_slice_to (JStr s) n = Inr (JStr (take n s))"
| "py_slice_to (JDict kvs) n =
     Inl (TypeError (''unhashable type: '' @ [CHR 0x27] @ ''slice'' @ [CHR 0x27]))"
| "py_slice_to x n = Inl (TypeError ([CHR 0x27] @ type_name x @ [CHR 0x27] @ '' object is not subscriptable''))"

text \<open>The elements a \<open>for\<close> loop or a comprehension draws from an object.\<close>

fun py_iter :: "json \<Rightarrow> exn + json list" where
  "py_iter (JList xs) = Inr xs"
| "py_iter (JStr s) = Inr (map (\<lambda>c. JStr [c]) s)"
| "py_iter (JDict kvs) = Inr (map (\<lambda>kv. JStr (fst kv)) kvs)"
| "py_iter x = Inl (TypeError ([CHR 0x27] @ type_name x @ [CHR 0x27] @ '' object is not iterable''))"

text \<open>\<open>k in x\<close> for a string \<open>k\<close>: a key of a dict, an element of a list, a substring of a string.\<close>

fun py_contains :: "string \<Rightarrow> json \<Rightarrow> exn + bool" where
  "py_contains k (JDict kvs) = Inr (map_of kvs k \<noteq> None)"
| "py_contains k (JList xs) = Inr (JStr k \<in> set xs)"
| "py_contains k (JStr s) = Inr (sublist k s)"
| "py_contains k x = Inl (TypeError (''argument of type '' @ [CHR 0x27] @ type_name x @ [CHR 0x27] @ '' is not iterable''))"

subsection \<open>Rendering: \<open>str\<close> and \<open>repr\<close>\<close>

definition digit_char :: "nat \<Rightarrow> char" where
  "digit_char d = ''0123456789'' ! (d mod 10)"

fun str_nat :: "nat \<Rightarrow> string" where
  "str_nat n = (if n < 10 then [digit_char n] else str_nat (n div 10) @ [digit_char (n mod 10)])"

definition str_int :: "int \<Rightarrow> string" where
  "str_int i = (if i < 0 then ''-'' @ str_nat (nat (- i)) else str_nat (nat i))"

definition hex_char :: "nat \<Rightarrow> char" where
  "hex_char d = ''0123456789abcdef'' ! (d mod 16)"

text \<open>
  \<open>repr\<close> of a string: single quotes unless the string has a single quote and no double
  quote; backslash, the quote, newline, carriage return and tab escaped; other control
  characters as \<open>\\xNN\<close>.
\<close>

definition repr_char :: "char \<Rightarrow> char \<Rightarrow> string" where
  "repr_char q c =
     (if c = CHR 0x5C then [CHR 0x5C, CHR 0x5C]
      else if c = q then [CHR 0x5C, q]
      else if c = CHR 0x0A then [CHR 0x5C, CHR ''n'']
      else if c = CHR 0x0D then [CHR 0x5C, CHR ''r'']
      else if c = CHR 0x09 then [CHR 0x5C, CHR ''t'']
      else if (of_char c :: nat) < 32 \<or> (of_char c :: nat) = 127
        then [CHR 0x5C, CHR ''x'', hex_char ((of_char c :: nat) div 16), hex_char (of_char c)]
      else [c])"

definition repr_str :: "string \<Rightarrow> string" where
  "repr_str s =
     (let q = (if CHR 0x27 \<in> set s \<and> CHR 0x22 \<notin> set s then CHR 0x22 else CHR 0x27)
      in [q] @ concat (map (repr_char q) s) @ [q])"

fun join :: "string \<Rightarrow> string list \<Rightarrow> string" where
  "join sep [] = []"
| "join sep [x] = x"
| "join sep (x # y # ys) = x @ sep @ join sep (y # ys)"

fun py_repr :: "json \<Rightarrow> string" where
  "py_repr JNull = ''None''"
| "py_repr (JBool b) = (if b then ''True'' else ''False'')"
| "py_repr (JInt i) = str_int i"
| "py_repr (JFloat nz r) = r"
| "py_repr (JStr s) = repr_str s"
| "py_repr (JList xs) = ''['' @ join '', '' (map py_repr xs) @ '']''"
| "py_repr (JDict kvs) =
     ''{'' @ join '', '' (map (\<lambda>kv. repr_str (fst kv) @ '': '' @ py_repr (snd kv)) kvs) @ ''}''"

text \<open>\<open>str(x)\<close>, which is what an f-string writes for \<open>{x}\<close>.\<close>

definition py_str :: "json \<Rightarrow> string" where
  "py_str x = (case x of JStr s \<Rightarrow> s | _ \<Rightarrow> py_repr x)"

section \<open>Python strings and the three regular expressions\<close>

text \<open>
  Whitespace as \<open>str.strip\<close> and the pattern \<open>\\s\<close> see it (the ASCII part: tab, line feed,
  vertical tab, form feed, carriage return, the four separators 0x1C to 0x1F, space).
  Python also counts the whitespace of Unicode above ASCII (such as U+00A0), and letters
  above ASCII as word characters; and it measures and cuts a \<open>str\<close> in characters,
  where a \<open>string\<close> here is made of bytes. So on text with characters above ASCII
  \<open>strip\<close>, the three patterns, \<open>take\<close> and \<open>length\<close> can differ from the code; on ASCII
  text they agree.
\<close>

definition is_space :: "char \<Rightarrow> bool" where
  "is_space c \<longleftrightarrow> c \<in> set [CHR 0x09, CHR 0x0A, CHR 0x0B, CHR 0x0C, CHR 0x0D,
                               CHR 0x1C, CHR 0x1D, CHR 0x1E, CHR 0x1F, CHR 0x20]"

definition strip :: "string \<Rightarrow> string" where
  "strip s = rev (dropWhile is_space (rev (dropWhile is_space s)))"

text \<open>\<open>s.split(c)\<close> for a one-character separator: never the empty list.\<close>

fun split :: "char \<Rightarrow> string \<Rightarrow> string list" where
  "split c [] = [[]]"
| "split c (x # xs) =
     (if x = c then [] # split c xs
      else (case split c xs of [] \<Rightarrow> [[x]] | w # ws \<Rightarrow> (x # w) # ws))"

definition startswith :: "string \<Rightarrow> string \<Rightarrow> bool" where
  "startswith s p = prefix p s"

definition lower_letters :: string where
  "lower_letters = ''abcdefghijklmnopqrstuvwxyz''"

definition upper_letters :: string where
  "upper_letters = ''ABCDEFGHIJKLMNOPQRSTUVWXYZ''"

definition digit_chars :: string where
  "digit_chars = ''0123456789''"

definition lower_char :: "char \<Rightarrow> char" where
  "lower_char c = (case map_of (zip upper_letters lower_letters) c of Some l \<Rightarrow> l | None \<Rightarrow> c)"

definition lower :: "string \<Rightarrow> string" where
  "lower s = map lower_char s"

definition is_lower_letter :: "char \<Rightarrow> bool" where
  "is_lower_letter c \<longleftrightarrow> c \<in> set lower_letters"

definition is_alnum :: "char \<Rightarrow> bool" where
  "is_alnum c \<longleftrightarrow> c \<in> set lower_letters \<or> c \<in> set upper_letters \<or> c \<in> set digit_chars"

text \<open>The class \<open>\\w\<close> on ASCII text.\<close>

definition is_word_char :: "char \<Rightarrow> bool" where
  "is_word_char c \<longleftrightarrow> is_alnum c \<or> c = CHR ''_''"

subsection \<open>\<open>re.findall(r'"path"\\s*:\\s*"([^"]+)"', s)\<close>\<close>

text \<open>
  One attempt at the start of \<open>s\<close>: the literal \<open>"path"\<close>, optional whitespace, a colon,
  optional whitespace, a double quote, one or more characters other than a double
  quote, a double quote. No step of it can match in two ways, so there is nothing to
  backtrack. The result is the group and the length of the whole match.
\<close>

definition dquote :: char where
  "dquote = CHR 0x22"

definition squote :: char where
  "squote = CHR 0x27"

definition match_path_marker :: "string \<Rightarrow> (string \<times> nat) option" where
  "match_path_marker s =
     (if prefix ([dquote] @ ''path'' @ [dquote]) s then
        (case dropWhile is_space (drop 6 s) of
           [] \<Rightarrow> None
         | c # r2 \<Rightarrow>
             if c \<noteq> CHR '':'' then None
             else (case dropWhile is_space r2 of
                     [] \<Rightarrow> None
                   | q # r4 \<Rightarrow>
                       if q \<noteq> dquote then None
                       else (let g = takeWhile (\<lambda>c. c \<noteq> dquote) r4;
                                 r5 = dropWhile (\<lambda>c. c \<noteq> dquote) r4
                             in if g \<noteq> [] \<and> r5 \<noteq> [] then Some (g, length s - length (tl r5))
                                else None)))
      else None)"

text \<open>
  \<open>findall\<close> scans from left to right; after a match it goes on behind the match.
  The counter is the number of characters still covered by the last match.
\<close>

fun findall_paths_from :: "nat \<Rightarrow> string \<Rightarrow> string list" where
  "findall_paths_from k [] = []"
| "findall_paths_from (Suc k) (c # cs) = findall_paths_from k cs"
| "findall_paths_from 0 (c # cs) =
     (case match_path_marker (c # cs) of
        Some (g, n) \<Rightarrow> g # findall_paths_from (n - 1) cs
      | None \<Rightarrow> findall_paths_from 0 cs)"

definition findall_paths :: "string \<Rightarrow> string list" where
  "findall_paths s = findall_paths_from 0 s"

subsection \<open>\<open>re.findall(r'\\b[a-z]+\\b', s)\<close>\<close>

text \<open>
  A match starts and ends at a word boundary and has lower-case letters only: it is a
  maximal run of word characters that consists of lower-case letters.
\<close>

fun word_runs :: "string \<Rightarrow> string list" where
  "word_runs [] = []"
| "word_runs (c # cs) =
     (if is_word_char c then
        (case cs of
           [] \<Rightarrow> [[c]]
         | d # ds \<Rightarrow> if is_word_char d
                      then (case word_runs cs of [] \<Rightarrow> [[c]] | w # ws \<Rightarrow> (c # w) # ws)
                      else [c] # word_runs cs)
      else word_runs cs)"

definition findall_words :: "string \<Rightarrow> string list" where
  "findall_words s = filter (\<lambda>w. list_all is_lower_letter w) (word_runs s)"

subsection \<open>The file-name pattern of the fallback\<close>

text \<open>
  \<open>re.search(r'(?:file|create|add)\\s+(?:named?\\s+)?["\\']?([a-zA-Z0-9_\\-\\.]+)["\\']?', s)\<close>.
  After the keyword and the (maximal) whitespace the engine first tries the optional
  group \<open>named?\\s+\<close>, with the \<open>d\<close> first, and falls back to skipping the group. Giving
  back whitespace or the optional quote never helps, since the name class holds
  neither. The search returns group 1 of the leftmost match.
\<close>

definition is_fname_char :: "char \<Rightarrow> bool" where
  "is_fname_char c \<longleftrightarrow> is_alnum c \<or> c = CHR ''_'' \<or> c = CHR ''-'' \<or> c = CHR ''.''"

definition after_keyword :: "string \<Rightarrow> string option" where
  "after_keyword s =
     (if prefix ''file'' s then Some (drop 4 s)
      else if prefix ''create'' s then Some (drop 6 s)
      else if prefix ''add'' s then Some (drop 3 s)
      else None)"

text \<open>\<open>\\s+\<close>: at least one whitespace character, then all that follow.\<close>

definition skip_spaces1 :: "string \<Rightarrow> string option" where
  "skip_spaces1 s =
     (case s of [] \<Rightarrow> None
      | c # cs \<Rightarrow> if is_space c then Some (dropWhile is_space cs) else None)"

text \<open>The optional quote and the name.\<close>

definition match_name :: "string \<Rightarrow> string option" where
  "match_name s =
     (let r = (case s of [] \<Rightarrow> []
               | c # cs \<Rightarrow> if c = dquote \<or> c = squote then cs else c # cs);
          g = takeWhile is_fname_char r
      in if g = [] then None else Some g)"

definition match_named :: "string \<Rightarrow> string option" where
  "match_named s =
     (if prefix ''name'' s then
        (let r = drop 4 s;
             with_d = (case r of [] \<Rightarrow> None
                       | c # cs \<Rightarrow> if c = CHR ''d''
                                    then (case skip_spaces1 cs of None \<Rightarrow> None | Some t \<Rightarrow> match_name t)
                                    else None)
         in case with_d of
              Some g \<Rightarrow> Some g
            | None \<Rightarrow> (case skip_spaces1 r of None \<Rightarrow> None | Some t \<Rightarrow> match_name t))
      else None)"

definition match_file_request :: "string \<Rightarrow> string option" where
  "match_file_request s =
     (case after_keyword s of
        None \<Rightarrow> None
      | Some r \<Rightarrow>
          (case skip_spaces1 r of
             None \<Rightarrow> None
           | Some t \<Rightarrow> (case match_named t of Some g \<Rightarrow> Some g | None \<Rightarrow> match_name t)))"

fun search_file_request :: "string \<Rightarrow> string option" where
  "search_file_request [] = None"
| "search_file_request (c # cs) =
     (case match_file_request (c # cs) of
        Some g \<Rightarrow> Some g
      | None \<Rightarrow> search_file_request cs)"

subsection \<open>The clock\<close>

record datetime =
  dt_year :: nat
  dt_month :: nat
  dt_day :: nat
  dt_hour :: nat
  dt_minute :: nat
  dt_second :: nat

definition pad2 :: "nat \<Rightarrow> string" where
  "pad2 n = (if n < 10 then ''0'' @ str_nat n else str_nat n)"

definition pad4 :: "nat \<Rightarrow> string" where
  "pad4 n = (if n < 10 then ''000'' @ str_nat n
             else if n < 100 then ''00'' @ str_nat n
             else if n < 1000 then ''0'' @ str_nat n
             else str_nat n)"

text \<open>\<open>strftime("%m%d%H%M")\<close> and \<open>strftime("%Y%m%d_%H%M%S")\<close>.\<close>

definition strftime_mdHM :: "datetime \<Rightarrow> string" where
  "strftime_mdHM t = pad2 (dt_month t) @ pad2 (dt_day t) @ pad2 (dt_hour t) @ pad2 (dt_minute t)"

definition strftime_YmdHMS :: "datetime \<Rightarrow> string" where
  "strftime_YmdHMS t =
     pad4 (dt_year t) @ pad2 (dt_month t) @ pad2 (dt_day t) @ ''_'' @
     pad2 (dt_hour t) @ pad2 (dt_minute t) @ pad2 (dt_second t)"

section \<open>Data classes\<close>

text \<open>
  The data classes of \<open>workflow.py\<close>, \<open>client.py\<close> and \<open>db/models.py\<close>. A field that
  receives a decoded JSON value is a \<open>json\<close> (with \<open>JNull\<close> for \<open>None\<close>), whatever its
  annotation says: nothing checks it. Of \<open>User\<close> the model keeps the fields the workflow
  reads.
\<close>

record WorkflowProgress =
  wp_step :: string
  wp_message :: string
  wp_percentage :: nat
  wp_details :: "string option"

record FileChange =
  fc_path :: json
  fc_content :: json
  fc_action :: json

record WorkflowResult =
  success :: bool
  message :: string
  commit_sha :: json
  commit_url :: "string option"
  pr_url :: json
  branch :: "string option"
  changed_files :: "json list option"
  error :: "string option"
  summary :: json
  next_steps :: json

record StreamingUpdate =
  status :: string
  current_file :: "string option"
  files_so_far :: "string list option"
  partial_text :: "string option"

record Repository =
  r_id :: json
  r_name :: json
  r_full_name :: json
  r_description :: json
  r_private :: json
  default_branch :: json
  clone_url :: json
  ssh_url :: json
  r_html_url :: json

record Commit =
  sha :: json
  commit_message :: json
  html_url :: json

record GitHubConnection =
  access_token :: "string option"
  selected_repo :: "string option"

record UserAPIKeys =
  openai_key :: "string option"
  anthropic_key :: "string option"

record UserSettings =
  default_model :: string

record User =
  api_keys :: UserAPIKeys
  settings :: UserSettings
  github :: GitHubConnection

definition is_connected :: "GitHubConnection \<Rightarrow> bool" where
  "is_connected g \<longleftrightarrow> access_token g \<noteq> None"

text \<open>Truth value of a \<open>str | None\<close>.\<close>

definition truthy_str :: "string option \<Rightarrow> bool" where
  "truthy_str x = (case x of None \<Rightarrow> False | Some s \<Rightarrow> s \<noteq> [])"

section \<open>The outside world\<close>

text \<open>
  Everything the workflow does to the outside is an event of a trace, in the order it
  happens: a request to the GitHub API with the answer it got, the streamed request to a
  model provider with the answer it got, and each call of the two callbacks.
  An answer of GitHub is the status code with the decoded body (\<open>JNull\<close> when the body is
  not JSON), or the exception \<open>httpx\<close> raised. An answer of a provider is the status code
  and the lines \<open>aiter_lines\<close> yields, with the exception that ends the iteration early,
  if one does.
\<close>

record http_request =
  req_auth :: string
  req_method :: string
  req_endpoint :: string
  req_params :: "(string \<times> string) list"
  req_json :: json

record ai_request =
  ai_url :: string
  ai_headers :: "(string \<times> string) list"
  ai_payload :: json
  ai_timeout :: nat

record ai_response =
  ai_status :: int
  ai_lines :: "string list"
  ai_error :: "exn option"

datatype event =
    GitHubCall http_request "exn + (int \<times> json)"
  | ModelCall ai_request "exn + ai_response"
  | ProgressEvent WorkflowProgress
  | StreamEvent StreamingUpdate

text \<open>
  The world answers each request; what it answers may depend on all that happened
  before. It also holds the library functions the model does not spell out: the JSON
  decoder (\<open>None\<close> for \<open>JSONDecodeError\<close>), base64, the clock and the random suffix.
  A callback is given by the exception it raises, if any, on each call.
\<close>

record world =
  gh_respond :: "event list \<Rightarrow> http_request \<Rightarrow> exn + (int \<times> json)"
  ai_respond :: "event list \<Rightarrow> ai_request \<Rightarrow> exn + ai_response"
  json_loads :: "string \<Rightarrow> json option"
  b64encode :: "string \<Rightarrow> string"
  b64decode_utf8 :: "string \<Rightarrow> exn + string"
  utcnow :: "event list \<Rightarrow> datetime"
  token_hex :: "event list \<Rightarrow> nat \<Rightarrow> string"

type_synonym 'a callback = "event list \<Rightarrow> 'a \<Rightarrow> exn option"

subsection \<open>Computations with a trace and exceptions\<close>

type_synonym 'a io = "event list \<Rightarrow> (exn + 'a) \<times> event list"

definition ret :: "'a \<Rightarrow> 'a io" where
  "ret x = (\<lambda>tr. (Inr x, tr))"

definition raise :: "exn \<Rightarrow> 'a io" where
  "raise e = (\<lambda>tr. (Inl e, tr))"

definition lift :: "exn + 'a \<Rightarrow> 'a io" where
  "lift r = (\<lambda>tr. (r, tr))"

definition bind_io :: "'a io \<Rightarrow> ('a \<Rightarrow> 'b io) \<Rightarrow> 'b io" where
  "bind_io m f = (\<lambda>tr. case m tr of (Inl e, tr') \<Rightarrow> (Inl e, tr') | (Inr x, tr') \<Rightarrow> f x tr')"

text \<open>\<open>try: m except Exception as e: h e\<close>.\<close>

definition try_except :: "'a io \<Rightarrow> (exn \<Rightarrow> 'a io) \<Rightarrow> 'a io" where
  "try_except m h = (\<lambda>tr. case m tr of (Inl e, tr') \<Rightarrow> h e tr' | (Inr x, tr') \<Rightarrow> (Inr x, tr'))"

text \<open>Sequencing of pure steps that can raise.\<close>

definition bind_exn :: "exn + 'a \<Rightarrow> ('a \<Rightarrow> exn + 'b) \<Rightarrow> exn + 'b" where
  "bind_exn m f = (case m of Inl e \<Rightarrow> Inl e | Inr x \<Rightarrow> f x)"

text \<open>\<open>if cb: await cb(x)\<close>: the event is delivered, then the callback may raise.\<close>

definition call_back :: "'a callback option \<Rightarrow> ('a \<Rightarrow> event) \<Rightarrow> 'a \<Rightarrow> unit io" where
  "call_back cb mk x =
     (\<lambda>tr. case cb of
              None \<Rightarrow> (Inr (), tr)
            | Some f \<Rightarrow> (case f tr x of
                           None \<Rightarrow> (Inr (), tr @ [mk x])
                         | Some e \<Rightarrow> (Inl e, tr @ [mk x])))"

section \<open>\<open>GitHubClient\<close>\<close>

record GitHubClient =
  client_token :: string
  client_open :: bool

text \<open>Inside \<open>async with GitHubClient(access_token) as client\<close> the client is open.\<close>

definition enter_client :: "string \<Rightarrow> GitHubClient" where
  "enter_client token = \<lparr>client_token = token, client_open = True\<rparr>"

definition request :: "world \<Rightarrow> GitHubClient \<Rightarrow> string \<Rightarrow> string \<Rightarrow> (string \<times> string) list
    \<Rightarrow> json \<Rightarrow> (int \<times> json) io" where
  "request W c method endpoint params body =
     (\<lambda>tr. if \<not> client_open c
            then (Inl (RuntimeError ''Client not initialized. Use 'async with' context.''), tr)
            else (let req = \<lparr>req_auth = ''Bearer '' @ client_token c, req_method = method,
                              req_endpoint = endpoint, req_params = params, req_json = body\<rparr>;
                      resp = gh_respond W tr req
                  in (resp, tr @ [GitHubCall req resp])))"

definition repos_url :: "string \<Rightarrow> string \<Rightarrow> string" where
  "repos_url owner repo = ''/repos/'' @ owner @ ''/'' @ repo"

definition get_repo :: "world \<Rightarrow> GitHubClient \<Rightarrow> string \<Rightarrow> string \<Rightarrow> Repository option io" where
  "get_repo W c owner repo =
     bind_io (request W c ''GET'' (repos_url owner repo) [] JNull) (\<lambda>(st, data).
       if st \<noteq> 200 \<or> \<not> truthy data then ret None
       else lift (
         bind_exn (py_getitem data ''id'') (\<lambda>v_id.
         bind_exn (py_getitem data ''name'') (\<lambda>v_name.
         bind_exn (py_getitem data ''full_name'') (\<lambda>v_full_name.
         bind_exn (py_get data ''description'' JNull) (\<lambda>v_description.
         bind_exn (py_getitem data ''private'') (\<lambda>v_private.
         bind_exn (py_get data ''default_branch'' (JStr ''main'')) (\<lambda>v_default_branch.
         bind_exn (py_getitem data ''clone_url'') (\<lambda>v_clone_url.
         bind_exn (py_getitem data ''ssh_url'') (\<lambda>v_ssh_url.
         bind_exn (py_getitem data ''html_url'') (\<lambda>v_html_url.
           Inr (Some \<lparr>r_id = v_id, r_name = v_name, r_full_name = v_full_name,
                       r_description = v_description, r_private = v_private,
                       default_branch = v_default_branch, clone_url = v_clone_url,
                       ssh_url = v_ssh_url, r_html_url = v_html_url\<rparr>))))))))))))"

definition create_branch :: "world \<Rightarrow> GitHubClient \<Rightarrow> string \<Rightarrow> string \<Rightarrow> string \<Rightarrow> json
    \<Rightarrow> bool io" where
  "create_branch W c owner repo branch_name from_sha =
     bind_io (request W c ''POST'' (repos_url owner repo @ ''/git/refs'') []
                (JDict [(''ref'', JStr (''refs/heads/'' @ branch_name)), (''sha'', from_sha)]))
       (\<lambda>(st, _). ret (st = 201))"

definition get_branch_sha :: "world \<Rightarrow> GitHubClient \<Rightarrow> string \<Rightarrow> string \<Rightarrow> json \<Rightarrow> json io" where
  "get_branch_sha W c owner repo branch_ref =
     bind_io (request W c ''GET'' (repos_url owner repo @ ''/git/ref/heads/'' @ py_str branch_ref) [] JNull)
       (\<lambda>(st, data).
          if st \<noteq> 200 \<or> \<not> truthy data then ret JNull
          else lift (bind_exn (py_get data ''object'' (JDict [])) (\<lambda>obj. py_get obj ''sha'' JNull)))"

text \<open>\<open>base64.b64decode(x).decode("utf-8")\<close>: only a string can be decoded.\<close>

definition py_b64decode :: "world \<Rightarrow> json \<Rightarrow> exn + string" where
  "py_b64decode W x =
     (case x of
        JStr s \<Rightarrow> b64decode_utf8 W s
      | _ \<Rightarrow> Inl (TypeError (''argument should be a bytes-like object or ASCII string, not ''
                             @ [squote] @ type_name x @ [squote])))"

definition get_file_content :: "world \<Rightarrow> GitHubClient \<Rightarrow> string \<Rightarrow> string \<Rightarrow> json
    \<Rightarrow> string option \<Rightarrow> (json \<times> json) io" where
  "get_file_content W c owner repo path ref =
     (let params = (if truthy_str ref then [(''ref'', the ref)] else [])
      in bind_io (request W c ''GET'' (repos_url owner repo @ ''/contents/'' @ py_str path) params JNull)
           (\<lambda>(st, data).
              if st \<noteq> 200 \<or> \<not> truthy data then ret (JNull, JNull)
              else lift (
                bind_exn (py_get data ''content'' (JStr [])) (\<lambda>enc.
                bind_exn (py_b64decode W enc) (\<lambda>content.
                bind_exn (py_get data ''sha'' JNull) (\<lambda>v_sha.
                  Inr (JStr content, v_sha)))))))"

text \<open>\<open>content.encode()\<close>: only a string has the method.\<close>

definition py_b64encode :: "world \<Rightarrow> json \<Rightarrow> exn + string" where
  "py_b64encode W x =
     (case x of
        JStr s \<Rightarrow> Inr (b64encode W s)
      | _ \<Rightarrow> Inl (AttributeError (type_name x) ''encode''))"

definition create_or_update_file :: "world \<Rightarrow> GitHubClient \<Rightarrow> string \<Rightarrow> string \<Rightarrow> json \<Rightarrow> json
    \<Rightarrow> string \<Rightarrow> string \<Rightarrow> json \<Rightarrow> Commit option io" where
  "create_or_update_file W c owner repo path content msg branch_name v_sha =
     bind_io (lift (py_b64encode W content)) (\<lambda>enc.
       (let payload0 = [(''message'', JStr msg), (''content'', JStr enc), (''branch'', JStr branch_name)];
            payload = (if truthy v_sha then payload0 @ [(''sha'', v_sha)] else payload0)
        in bind_io (request W c ''PUT'' (repos_url owner repo @ ''/contents/'' @ py_str path) []
                      (JDict payload))
             (\<lambda>(st, data).
                if (st \<noteq> 200 \<and> st \<noteq> 201) \<or> \<not> truthy data then ret None
                else lift (
                  bind_exn (py_get data ''commit'' (JDict [])) (\<lambda>commit_data.
                  bind_exn (py_get commit_data ''sha'' (JStr [])) (\<lambda>c_sha.
                  bind_exn (py_get commit_data ''message'' (JStr msg)) (\<lambda>c_msg.
                  bind_exn (py_get commit_data ''html_url'' (JStr [])) (\<lambda>c_url.
                    Inr (Some \<lparr>sha = c_sha, commit_message = c_msg, html_url = c_url\<rparr>)))))))))"

definition create_pull_request :: "world \<Rightarrow> GitHubClient \<Rightarrow> string \<Rightarrow> string \<Rightarrow> string \<Rightarrow> string
    \<Rightarrow> string \<Rightarrow> json \<Rightarrow> json io" where
  "create_pull_request W c owner repo title body head base =
     bind_io (request W c ''POST'' (repos_url owner repo @ ''/pulls'') []
                (JDict [(''title'', JStr title), (''body'', JStr body),
                        (''head'', JStr head), (''base'', base)]))
       (\<lambda>(st, data). ret (if st = 201 then data else JNull))"

definition get_tree :: "world \<Rightarrow> GitHubClient \<Rightarrow> string \<Rightarrow> string \<Rightarrow> json \<Rightarrow> bool \<Rightarrow> json io" where
  "get_tree W c owner repo ref recursive =
     bind_io (request W c ''GET'' (repos_url owner repo @ ''/git/ref/heads/'' @ py_str ref) [] JNull)
       (\<lambda>(st, data).
          if st \<noteq> 200 \<or> \<not> truthy data then ret JNull
          else bind_io (lift (bind_exn (py_get data ''object'' (JDict [])) (\<lambda>obj. py_get obj ''sha'' JNull)))
                 (\<lambda>tree_sha.
                    if \<not> truthy tree_sha then ret JNull
                    else (let params = (if recursive then [(''recursive'', ''1'')] else [])
                          in bind_io (request W c ''GET''
                                        (repos_url owner repo @ ''/git/trees/'' @ py_str tree_sha) params JNull)
                               (\<lambda>(st2, data2).
                                  if st2 \<noteq> 200 \<or> \<not> truthy data2 then ret JNull
                                  else lift (py_get data2 ''tree'' (JList []))))))"

section \<open>\<open>GitHubWorkflow\<close>: the pure helpers\<close>

definition nl :: string where
  "nl = [CHR 0x0A]"

text \<open>The emoji of the source's messages, as their UTF-8 bytes.\<close>

definition emoji_masks :: string where
  "emoji_masks = [CHR 0xF0, CHR 0x9F, CHR 0x8E, CHR 0xAD]"

definition emoji_robot :: string where
  "emoji_robot = [CHR 0xF0, CHR 0x9F, CHR 0xA4, CHR 0x96]"

definition emoji_folder :: string where
  "emoji_folder = [CHR 0xF0, CHR 0x9F, CHR 0x93, CHR 0x81]"

definition emoji_page :: string where
  "emoji_page = [CHR 0xF0, CHR 0x9F, CHR 0x93, CHR 0x84]"

definition emoji_satellite :: string where
  "emoji_satellite = [CHR 0xF0, CHR 0x9F, CHR 0x93, CHR 0xA1]"

definition emoji_magnifier :: string where
  "emoji_magnifier = [CHR 0xF0, CHR 0x9F, CHR 0x94, CHR 0x8D]"

definition emoji_herb :: string where
  "emoji_herb = [CHR 0xF0, CHR 0x9F, CHR 0x8C, CHR 0xBF]"

definition emoji_open_folder :: string where
  "emoji_open_folder = [CHR 0xF0, CHR 0x9F, CHR 0x93, CHR 0x82]"

definition emoji_memo :: string where
  "emoji_memo = [CHR 0xF0, CHR 0x9F, CHR 0x93, CHR 0x9D]"

definition emoji_floppy :: string where
  "emoji_floppy = [CHR 0xF0, CHR 0x9F, CHR 0x92, CHR 0xBE]"

definition emoji_shuffle :: string where
  "emoji_shuffle = [CHR 0xF0, CHR 0x9F, CHR 0x94, CHR 0x80]"

definition emoji_check :: string where
  "emoji_check = [CHR 0xE2, CHR 0x9C, CHR 0x85]"

text \<open>The constructor \<open>WorkflowResult(success=s, message=m)\<close> with every default.\<close>

definition new_result :: "bool \<Rightarrow> string \<Rightarrow> WorkflowResult" where
  "new_result s m =
     \<lparr>success = s, message = m, commit_sha = JNull, commit_url = None, pr_url = JNull,
      branch = None, changed_files = None, error = None, summary = JNull, next_steps = JNull\<rparr>"

definition new_update :: "string \<Rightarrow> StreamingUpdate" where
  "new_update s = \<lparr>status = s, current_file = None, files_so_far = None, partial_text = None\<rparr>"

subsection \<open>\<open>_parse_ai_response_with_meta\<close>\<close>

definition code_fence :: string where
  "code_fence = [CHR 0x60, CHR 0x60, CHR 0x60]"

text \<open>Lines 575 to 580: strip, then drop an enclosing code fence.\<close>

definition strip_code_fence :: "string \<Rightarrow> string" where
  "strip_code_fence content0 =
     (let content = strip content0
      in if startswith content code_fence
         then (let lines = split (CHR 0x0A) content
               in join nl (if strip (last lines) = code_fence then butlast (tl lines) else tl lines))
         else content)"

text \<open>Lines 600 to 605: an entry that is a dict with \<open>path\<close> and \<open>content\<close> becomes a change.\<close>

definition parse_item :: "json \<Rightarrow> FileChange option" where
  "parse_item item =
     (case item of
        JDict kvs \<Rightarrow>
          (case (map_of kvs ''path'', map_of kvs ''content'') of
             (Some p, Some c) \<Rightarrow>
               Some \<lparr>fc_path = p, fc_content = c,
                      fc_action = (case map_of kvs ''action'' of Some a \<Rightarrow> a | None \<Rightarrow> JStr ''create'')\<rparr>
           | _ \<Rightarrow> None)
      | _ \<Rightarrow> None)"

text \<open>
  Only \<open>JSONDecodeError\<close> is caught: it gives the empty result. Every other exception
  leaves the function, among them the \<open>AttributeError\<close> of \<open>data.get\<close> on a value that
  is not a dict.
\<close>

definition parse_ai_response_with_meta :: "world \<Rightarrow> string \<Rightarrow> exn + (FileChange list \<times> json \<times> json)" where
  "parse_ai_response_with_meta W content0 =
     (case json_loads W (strip_code_fence content0) of
        None \<Rightarrow> Inr ([], JNull, JNull)
      | Some data \<Rightarrow>
          bind_exn (py_get data ''summary'' JNull) (\<lambda>v_summary.
          bind_exn (py_get data ''next_steps'' (JList [])) (\<lambda>v_next_steps.
          bind_exn (py_contains ''files'' data) (\<lambda>has_files.
          bind_exn (if has_files then py_getitem data ''files''
                    else Inr (case data of JList _ \<Rightarrow> data | _ \<Rightarrow> JList [data])) (\<lambda>files_data.
            (let files_list = (case files_data of JList xs \<Rightarrow> xs | _ \<Rightarrow> [files_data])
             in Inr (List.map_filter parse_item files_list,
                     v_summary,
                     if truthy v_next_steps then v_next_steps else JNull)))))))"

definition parse_ai_response :: "world \<Rightarrow> string \<Rightarrow> exn + FileChange list" where
  "parse_ai_response W content = bind_exn (parse_ai_response_with_meta W content) (\<lambda>(changes, _, _). Inr changes)"

subsection \<open>\<open>_simple_file_creation\<close>\<close>

text \<open>The clock is read only on the default path, at the moment of the call.\<close>

definition simple_file_creation :: "world \<Rightarrow> string \<Rightarrow> FileChange list io" where
  "simple_file_creation W prompt =
     (\<lambda>tr.
        (let prompt_lower = lower prompt
         in case search_file_request prompt_lower of
              Some group1 \<Rightarrow>
                (let filename = (if sublist ''.'' group1 then group1 else group1 @ ''.txt'')
                 in (Inr [\<lparr>fc_path = JStr filename,
                           fc_content = JStr (''# '' @ filename @ nl @ nl @ ''Created by Amadeus Pocket ''
                                              @ emoji_masks @ nl @ nl @ ''Prompt: '' @ prompt @ nl),
                           fc_action = JStr ''create''\<rparr>], tr))
            | None \<Rightarrow>
                (let timestamp = strftime_YmdHMS (utcnow W tr)
                 in (Inr [\<lparr>fc_path = JStr (''amadeus_change_'' @ timestamp @ ''.md''),
                           fc_content = JStr (''# Change Request'' @ nl @ nl @ ''**Prompt:** '' @ prompt
                                              @ nl @ nl @ ''*Generated by Amadeus Pocket*'' @ nl),
                           fc_action = JStr ''create''\<rparr>], tr))))"

subsection \<open>\<open>_generate_branch_name\<close>, \<open>_generate_pr_title\<close>, \<open>_generate_pr_body\<close>\<close>

definition generate_branch_name :: "world \<Rightarrow> string \<Rightarrow> string io" where
  "generate_branch_name W prompt =
     (\<lambda>tr.
        (let words = findall_words (lower prompt);
             keywords = take 3 (filter (\<lambda>w. length w > 3) words);
             slug = (if keywords \<noteq> [] then join ''-'' keywords else ''update'');
             timestamp = strftime_mdHM (utcnow W tr);
             random_suffix = token_hex W tr 2
         in (Inr (''amadeus/'' @ slug @ ''-'' @ timestamp @ ''-'' @ random_suffix), tr)))"

definition generate_pr_title :: "string \<Rightarrow> string" where
  "generate_pr_title prompt =
     (let title = take 60 prompt;
          title' = (if length prompt > 60 then title @ ''...'' else title)
      in emoji_robot @ '' '' @ title')"

definition generate_pr_body :: "string \<Rightarrow> json list \<Rightarrow> string" where
  \<open>generate_pr_body prompt changed =
     (let files_list = join nl (map (\<lambda>f. ''- `'' @ py_str f @ ''`'') changed)
      in join nl
           [''## '' @ emoji_robot @ '' AI-Generated Changes'',
            '''',
            ''**Prompt:**'',
            ''> '' @ prompt,
            '''',
            ''### Changed Files'',
            files_list,
            '''',
            ''### How to Review'',
            ''1. Check the changed files above'',
            ''2. Review the diff for correctness'',
            ''3. Test locally if needed'',
            ''4. Approve and merge!'',
            '''',
            ''---'',
            ''*This PR was automatically generated by [Amadeus Pocket](https://amadeus.dev) '' @ emoji_masks @ ''*'',
            ''''])\<close>

section \<open>Streaming the model's answer\<close>

record stream_state =
  full_content :: string
  files_detected :: "string list"
  last_update_len :: nat

definition writing_file_update :: "string \<Rightarrow> string list \<Rightarrow> StreamingUpdate" where
  "writing_file_update f fs = (new_update ''writing_file'')\<lparr>current_file := Some f, files_so_far := Some fs\<rparr>"

definition thinking_update :: StreamingUpdate where
  "thinking_update = new_update ''thinking''"

definition done_update :: "string list \<Rightarrow> StreamingUpdate" where
  "done_update fs = (new_update ''done'')\<lparr>files_so_far := Some fs\<rparr>"

text \<open>
  The loop \<open>for f in new_files\<close> (lines 458 to 466 and 549 to 557): a path not seen yet
  is appended to \<open>files_detected\<close> and reported with a copy of the list.
\<close>

fun notify_new_files :: "StreamingUpdate callback option \<Rightarrow> string list \<Rightarrow> string list \<Rightarrow> string list io" where
  "notify_new_files on_stream [] detected = ret detected"
| "notify_new_files on_stream (f # fs) detected =
     (if f \<in> set detected then notify_new_files on_stream fs detected
      else bind_io (call_back on_stream StreamEvent (writing_file_update f (detected @ [f])))
             (\<lambda>_. notify_new_files on_stream fs (detected @ [f])))"

text \<open>Lines 454 to 467 and 545 to 558: one more piece of text.\<close>

definition add_text :: "StreamingUpdate callback option \<Rightarrow> stream_state \<Rightarrow> string \<Rightarrow> stream_state io" where
  "add_text on_stream st text =
     (let content = full_content st @ text;
          new_files = findall_paths (drop (last_update_len st) content)
      in bind_io (notify_new_files on_stream new_files (files_detected st))
           (\<lambda>detected. ret \<lparr>full_content = content, files_detected = detected,
                             last_update_len = length content\<rparr>))"

text \<open>\<open>full_content += text\<close> needs a string.\<close>

definition add_json_text :: "StreamingUpdate callback option \<Rightarrow> stream_state \<Rightarrow> json \<Rightarrow> stream_state io" where
  "add_json_text on_stream st v =
     (case v of
        JStr t \<Rightarrow> add_text on_stream st t
      | _ \<Rightarrow> raise (TypeError (''can only concatenate str (not '' @ [dquote] @ type_name v @ [dquote]
                                @ '') to str'')))"

text \<open>
  The body of the \<open>try\<close> in the Anthropic loop (lines 446 to 469). A line that is not
  JSON is skipped; the exceptions of \<open>.get\<close> and of \<open>+=\<close> are not caught here.
\<close>

definition anthropic_event :: "world \<Rightarrow> StreamingUpdate callback option \<Rightarrow> stream_state \<Rightarrow> string
    \<Rightarrow> stream_state io" where
  "anthropic_event W on_stream st data_str =
     (case json_loads W data_str of
        None \<Rightarrow> ret st
      | Some ev \<Rightarrow>
          bind_io (lift (py_get ev ''type'' JNull)) (\<lambda>ty.
            if ty = JStr ''content_block_delta''
            then bind_io (lift (py_get ev ''delta'' (JDict []))) (\<lambda>delta.
                 bind_io (lift (py_get delta ''type'' JNull)) (\<lambda>dty.
                   if dty = JStr ''text_delta''
                   then bind_io (lift (py_get delta ''text'' (JStr []))) (\<lambda>text.
                          add_json_text on_stream st text)
                   else ret st))
            else ret st))"

text \<open>The body of the \<open>try\<close> in the OpenAI loop (lines 538 to 560).\<close>

definition openai_event :: "world \<Rightarrow> StreamingUpdate callback option \<Rightarrow> stream_state \<Rightarrow> string
    \<Rightarrow> stream_state io" where
  "openai_event W on_stream st data_str =
     (case json_loads W data_str of
        None \<Rightarrow> ret st
      | Some ev \<Rightarrow>
          bind_io (lift (py_get ev ''choices'' (JList []))) (\<lambda>choices.
            if truthy choices
            then bind_io (lift (py_getitem0 choices)) (\<lambda>choice.
                 bind_io (lift (py_get choice ''delta'' (JDict []))) (\<lambda>delta.
                 bind_io (lift (py_get delta ''content'' (JStr []))) (\<lambda>text.
                   if truthy text then add_json_text on_stream st text else ret st)))
            else ret st))"

text \<open>
  The loop \<open>async for line in response.aiter_lines()\<close>: lines without the prefix
  \<open>data: \<close> are skipped, \<open>[DONE]\<close> leaves the loop, and when the lines are used up the
  iterator either stops or raises.
\<close>

fun stream_lines :: "(stream_state \<Rightarrow> string \<Rightarrow> stream_state io) \<Rightarrow> string list \<Rightarrow> exn option
    \<Rightarrow> stream_state \<Rightarrow> stream_state io" where
  "stream_lines handle [] err st = (case err of None \<Rightarrow> ret st | Some e \<Rightarrow> raise e)"
| "stream_lines handle (line # rest) err st =
     (if \<not> startswith line ''data: '' then stream_lines handle rest err st
      else (let data_str = drop 6 line
            in if data_str = ''[DONE]'' then ret st
               else bind_io (handle st data_str) (\<lambda>st'. stream_lines handle rest err st')))"

definition post_stream :: "world \<Rightarrow> ai_request \<Rightarrow> ai_response io" where
  "post_stream W req = (\<lambda>tr. (let r = ai_respond W tr req in (r, tr @ [ModelCall req r])))"

definition ANTHROPIC_API_URL :: string where
  "ANTHROPIC_API_URL = ''https://api.anthropic.com/v1/messages''"

definition OPENAI_API_URL :: string where
  "OPENAI_API_URL = ''https://api.openai.com/v1/chat/completions''"

definition initial_stream_state :: stream_state where
  "initial_stream_state = \<lparr>full_content = [], files_detected = [], last_update_len = 0\<rparr>"

text \<open>
  What both calls do with the response (lines 429 to 475 and 521 to 566): a status
  other than 200 returns at once; otherwise \<open>thinking\<close>, the lines, \<open>done\<close>, the parse.
\<close>

definition consume_response :: "world \<Rightarrow> StreamingUpdate callback option
    \<Rightarrow> (stream_state \<Rightarrow> string \<Rightarrow> stream_state io) \<Rightarrow> ai_response
    \<Rightarrow> (FileChange list \<times> json \<times> json) io" where
  "consume_response W on_stream handle resp =
     (if ai_status resp \<noteq> 200 then ret ([], JNull, JNull)
      else bind_io (call_back on_stream StreamEvent thinking_update) (\<lambda>_.
           bind_io (stream_lines handle (ai_lines resp) (ai_error resp) initial_stream_state) (\<lambda>st.
           bind_io (call_back on_stream StreamEvent (done_update (files_detected st))) (\<lambda>_.
             lift (parse_ai_response_with_meta W (full_content st))))))"

definition call_anthropic_streaming :: "world \<Rightarrow> string \<Rightarrow> string \<Rightarrow> string \<Rightarrow> string
    \<Rightarrow> StreamingUpdate callback option \<Rightarrow> (FileChange list \<times> json \<times> json) io" where
  "call_anthropic_streaming W api_key system user_msg model on_stream =
     try_except
       (let timeout = (if sublist ''opus'' model then 300 else 180);
            req = \<lparr>ai_url = ANTHROPIC_API_URL,
                   ai_headers = [(''x-api-key'', api_key), (''anthropic-version'', ''2023-06-01''),
                                 (''content-type'', ''application/json'')],
                   ai_payload = JDict [(''model'', JStr model), (''max_tokens'', JInt 16384),
                                       (''system'', JStr system),
                                       (''messages'', JList [JDict [(''role'', JStr ''user''),
                                                                    (''content'', JStr user_msg)]]),
                                       (''stream'', JBool True)],
                   ai_timeout = timeout\<rparr>
        in bind_io (post_stream W req) (consume_response W on_stream (anthropic_event W on_stream)))
       (\<lambda>e. ret ([], JNull, JNull))"

definition call_openai_streaming :: "world \<Rightarrow> string \<Rightarrow> string \<Rightarrow> string \<Rightarrow> string
    \<Rightarrow> StreamingUpdate callback option \<Rightarrow> (FileChange list \<times> json \<times> json) io" where
  "call_openai_streaming W api_key system user_msg model on_stream =
     try_except
       (let is_gpt5 = (startswith model ''gpt-5'' \<or> startswith model ''o3'' \<or> startswith model ''o1'');
            payload0 = [(''model'', JStr model),
                        (''messages'', JList [JDict [(''role'', JStr ''system''), (''content'', JStr system)],
                                              JDict [(''role'', JStr ''user''), (''content'', JStr user_msg)]]),
                        (''stream'', JBool True)];
            payload = (if is_gpt5 then payload0 @ [(''max_completion_tokens'', JInt 16384)]
                       else payload0 @ [(''max_tokens'', JInt 16384)]);
            req = \<lparr>ai_url = OPENAI_API_URL,
                   ai_headers = [(''Authorization'', ''Bearer '' @ api_key),
                                 (''Content-Type'', ''application/json'')],
                   ai_payload = JDict payload,
                   ai_timeout = 180\<rparr>
        in bind_io (post_stream W req) (consume_response W on_stream (openai_event W on_stream)))
       (\<lambda>e. ret ([], JNull, JNull))"

section \<open>\<open>_generate_ai_changes\<close>\<close>

definition system_prompt :: string where
  \<open>system_prompt = join nl
     [''You are an expert coding assistant. You will be given a repository context and a user request.'',
      '''',
      ''Your task is to generate file changes to fulfill the user's request.'',
      '''',
      ''IMPORTANT: You MUST respond with ONLY a valid JSON object (not an array). No explanations, no markdown.'',
      '''',
      ''The JSON object must have this structure:'',
      ''{'',
      ''  "summary": "Brief explanation of what you did (1-2 sentences)",'',
      ''  "next_steps": ["Step 1 the user should do next", "Step 2", ...],'',
      ''  "files": ['',
      ''    {"path": "src/main.py", "content": "file content here", "action": "create"}'',
      ''  ]'',
      ''}'',
      '''',
      ''Rules for files array:'',
      ''- "path": the file path (e.g., "src/main.py")'',
      ''- "content": the complete file content'',
      ''- "action": either "create" for new files or "update" for existing files'',
      '''',
      ''For updates, include the FULL new file content, not just the changes.'',
      ''Keep summary concise. next_steps should be 1-3 actionable items.'',
      '''',
      ''You may reference previous conversation context if provided to understand the full request.'']\<close>

text \<open>A comprehension whose element expression can raise: the first exception ends it.\<close>

fun map_exn :: "('a \<Rightarrow> exn + 'b) \<Rightarrow> 'a list \<Rightarrow> exn + 'b list" where
  "map_exn f [] = Inr []"
| "map_exn f (x # xs) = bind_exn (f x) (\<lambda>y. bind_exn (map_exn f xs) (\<lambda>ys. Inr (y # ys)))"

definition tree_line :: "json \<Rightarrow> exn + string" where
  "tree_line f =
     bind_exn (py_get f ''type'' JNull) (\<lambda>ty.
     bind_exn (py_get f ''path'' JNull) (\<lambda>p.
       Inr ((if ty = JStr ''tree'' then emoji_folder else emoji_page) @ '' '' @ py_str p)))"

definition tree_summary :: "json \<Rightarrow> exn + string" where
  "tree_summary file_tree =
     bind_exn (py_slice_to file_tree 100) (\<lambda>first.
     bind_exn (py_iter first) (\<lambda>entries.
     bind_exn (map_exn tree_line entries) (\<lambda>lines. Inr (join nl lines))))"

definition history_line :: "json \<Rightarrow> exn + string" where
  "history_line msg =
     bind_exn (py_getitem msg ''role'') (\<lambda>r.
     bind_exn (py_getitem msg ''content'') (\<lambda>c.
     bind_exn (py_slice_to c 500) (\<lambda>content.
       Inr ((if r = JStr ''user'' then ''User'' else ''Assistant'') @ '': '' @ py_str content))))"

definition history_context :: "json list option \<Rightarrow> exn + string" where
  "history_context conversation_history =
     (case conversation_history of
        None \<Rightarrow> Inr []
      | Some h \<Rightarrow>
          if h = [] then Inr []
          else bind_exn (map_exn history_line (drop (length h - 10) h)) (\<lambda>history_parts.
                 Inr (nl @ nl @ ''## Previous Conversation:'' @ nl
                      @ join (nl @ ''---'' @ nl) history_parts)))"

definition user_message :: "string \<Rightarrow> string \<Rightarrow> string \<Rightarrow> string" where
  "user_message tree history prompt =
     ''## Repository Structure:'' @ nl @ tree @ nl @ history @ nl @ nl
     @ ''## Current Request:'' @ nl @ prompt @ nl @ nl
     @ ''Generate the file changes needed. Respond with ONLY a JSON object with summary, next_steps, and files.''"

definition no_changes_error :: exn where
  "no_changes_error = ValueError ''AI returned no changes. Try a more specific request.''"

definition generate_ai_changes :: "world \<Rightarrow> User \<Rightarrow> string \<Rightarrow> string \<Rightarrow> json \<Rightarrow> json list option
    \<Rightarrow> StreamingUpdate callback option \<Rightarrow> (FileChange list \<times> json \<times> json) io" where
  "generate_ai_changes W user prompt repo_context file_tree conversation_history on_stream =
     bind_io (lift (tree_summary file_tree)) (\<lambda>tree.
     bind_io (lift (history_context conversation_history)) (\<lambda>history.
       (let user_msg = user_message tree history prompt;
            user_model = (if default_model (settings user) \<noteq> [] then default_model (settings user)
                          else ''gpt-5.2'');
            has_anthropic = truthy_str (anthropic_key (api_keys user));
            has_openai = truthy_str (openai_key (api_keys user))
        in if \<not> has_anthropic \<and> \<not> has_openai
           then raise (ValueError ''No API keys configured. Use /settings to add your Anthropic or OpenAI key.'')
           else bind_io
                  (if startswith user_model ''claude''
                   then (if has_anthropic
                         then bind_io (call_anthropic_streaming W (the (anthropic_key (api_keys user)))
                                         system_prompt user_msg user_model on_stream)
                                (\<lambda>r. ret (Some r))
                         else if has_openai
                         then bind_io (call_openai_streaming W (the (openai_key (api_keys user)))
                                         system_prompt user_msg ''gpt-5.2'' on_stream)
                                (\<lambda>r. ret (Some r))
                         else ret None)
                   else (if has_openai
                         then bind_io (call_openai_streaming W (the (openai_key (api_keys user)))
                                         system_prompt user_msg user_model on_stream)
                                (\<lambda>r. ret (Some r))
                         else if has_anthropic
                         then bind_io (call_anthropic_streaming W (the (anthropic_key (api_keys user)))
                                         system_prompt user_msg ''claude-sonnet-4-20250514'' on_stream)
                                (\<lambda>r. ret (Some r))
                         else ret None))
                  (\<lambda>result.
                     case result of
                       None \<Rightarrow> raise no_changes_error
                     | Some r \<Rightarrow> if fst r = [] then raise no_changes_error else ret r))))"

section \<open>\<open>GitHubWorkflow.execute\<close>\<close>

definition progress :: "WorkflowProgress callback option \<Rightarrow> string \<Rightarrow> string \<Rightarrow> nat \<Rightarrow> unit io" where
  "progress on_progress step msg pct =
     call_back on_progress ProgressEvent
       \<lparr>wp_step = step, wp_message = msg, wp_percentage = pct, wp_details = None\<rparr>"

definition failure :: "string \<Rightarrow> string \<Rightarrow> WorkflowResult" where
  "failure msg err = (new_result False msg)\<lparr>error := Some err\<rparr>"

text \<open>Lines 203 to 218: the body of the commit loop for one change.\<close>

definition commit_change :: "world \<Rightarrow> GitHubClient \<Rightarrow> string \<Rightarrow> string \<Rightarrow> string \<Rightarrow> FileChange
    \<Rightarrow> Commit option io" where
  "commit_change W client owner repo branch_name change =
     bind_io (if fc_action change = JStr ''update''
              then bind_io (get_file_content W client owner repo (fc_path change) (Some branch_name))
                     (\<lambda>(_, v_sha). ret v_sha)
              else ret JNull) (\<lambda>existing_sha.
       create_or_update_file W client owner repo (fc_path change) (fc_content change)
         ((if fc_action change = JStr ''create'' then ''Create'' else ''Update'') @ '' '' @ py_str (fc_path change))
         branch_name existing_sha)"

text \<open>Lines 199 to 221: the loop, with \<open>commit\<close> and \<open>changed_files\<close> as its state.\<close>

fun commit_changes :: "world \<Rightarrow> GitHubClient \<Rightarrow> string \<Rightarrow> string \<Rightarrow> string \<Rightarrow> FileChange list
    \<Rightarrow> Commit option \<times> json list \<Rightarrow> (Commit option \<times> json list) io" where
  "commit_changes W client owner repo branch_name [] acc = ret acc"
| "commit_changes W client owner repo branch_name (change # rest) acc =
     bind_io (commit_change W client owner repo branch_name change) (\<lambda>commit.
       commit_changes W client owner repo branch_name rest
         (commit, if commit \<noteq> None then snd acc @ [fc_path change] else snd acc))"

text \<open>Lines 194 to 265: the commits, the pull request and the result, for given changes.\<close>

definition commit_and_report :: "world \<Rightarrow> string \<Rightarrow> WorkflowProgress callback option \<Rightarrow> bool
    \<Rightarrow> int option \<Rightarrow> string \<Rightarrow> GitHubClient \<Rightarrow> string \<Rightarrow> string \<Rightarrow> json \<Rightarrow> string
    \<Rightarrow> FileChange list \<Rightarrow> json \<Rightarrow> json \<Rightarrow> WorkflowResult io" where
  "commit_and_report W prompt on_progress create_pr existing_pr_number repo_full_name client owner repo
       v_default_branch branch_name changes v_summary v_next_steps =
     bind_io (progress on_progress ''ai''
                (emoji_memo @ '' '' @ str_nat (length changes) @ '' file(s) to modify'') 70) (\<lambda>_.
     bind_io (progress on_progress ''commit'' (emoji_floppy @ '' Commit des changements...'') 80) (\<lambda>_.
     bind_io (commit_changes W client owner repo branch_name changes (None, [])) (\<lambda>(commit, changed).
       if changed = [] then ret (failure ''No changes committed'' ''No files could be modified'')
       else
         (let v_commit_url =
                (case commit of
                   None \<Rightarrow> None
                 | Some c \<Rightarrow> Some (''https://github.com/'' @ repo_full_name @ ''/commit/'' @ py_str (sha c)))
          in
     bind_io (if (case existing_pr_number of None \<Rightarrow> False | Some n \<Rightarrow> n \<noteq> 0)
              then bind_io (progress on_progress ''pr''
                              (emoji_memo @ '' Added commit to PR #'' @ str_int (the existing_pr_number) @ ''...'') 90)
                     (\<lambda>_. ret (JStr (''https://github.com/'' @ repo_full_name @ ''/pull/''
                                      @ str_int (the existing_pr_number))))
              else if create_pr
              then bind_io (progress on_progress ''pr'' (emoji_shuffle @ '' Creating Pull Request...'') 90) (\<lambda>_.
                   bind_io (create_pull_request W client owner repo (generate_pr_title prompt)
                              (generate_pr_body prompt changed) branch_name v_default_branch) (\<lambda>pr.
                     if truthy pr then lift (py_get pr ''html_url'' JNull) else ret JNull))
              else ret JNull) (\<lambda>v_pr_url.
     bind_io (progress on_progress ''done'' (emoji_check @ '' Done!'') 100) (\<lambda>_.
       ret ((new_result True ''Changes pushed successfully!'')
              \<lparr>commit_sha := (case commit of None \<Rightarrow> JNull | Some c \<Rightarrow> sha c),
               commit_url := v_commit_url,
               pr_url := v_pr_url,
               branch := Some branch_name,
               changed_files := Some changed,
               summary := v_summary,
               next_steps := v_next_steps\<rparr>)))))))"

text \<open>Lines 171 to 192: the tree, then the changes, from the model or from the fallback.\<close>

definition generate_edits :: "world \<Rightarrow> User \<Rightarrow> string \<Rightarrow> WorkflowProgress callback option
    \<Rightarrow> StreamingUpdate callback option \<Rightarrow> json list option \<Rightarrow> GitHubClient \<Rightarrow> string \<Rightarrow> string
    \<Rightarrow> json \<Rightarrow> (FileChange list \<times> json \<times> json) io" where
  "generate_edits W user prompt on_progress on_stream conversation_history client owner repo
       v_default_branch =
     bind_io (progress on_progress ''context'' (emoji_open_folder @ '' Reading repo structure...'') 40) (\<lambda>_.
     bind_io (get_tree W client owner repo v_default_branch True) (\<lambda>tree.
     (let file_tree = (if truthy tree then tree else JList [])
      in
     bind_io (progress on_progress ''ai'' (emoji_robot @ '' AI is thinking...'') 50) (\<lambda>_.
     bind_io (if \<not> truthy_str (anthropic_key (api_keys user)) \<and> \<not> truthy_str (openai_key (api_keys user))
              then bind_io (simple_file_creation W prompt) (\<lambda>changes. ret (changes, JNull, JNull))
              else generate_ai_changes W user prompt [] file_tree conversation_history on_stream)
       (\<lambda>(changes0, v_summary, v_next_steps).
     bind_io (if changes0 = [] then simple_file_creation W prompt else ret changes0) (\<lambda>changes.
       ret (changes, v_summary, v_next_steps)))))))"

text \<open>Lines 171 to 265: all that follows once the branch name is known.\<close>

definition execute_on_branch :: "world \<Rightarrow> User \<Rightarrow> string \<Rightarrow> WorkflowProgress callback option
    \<Rightarrow> StreamingUpdate callback option \<Rightarrow> bool \<Rightarrow> json list option \<Rightarrow> int option
    \<Rightarrow> string \<Rightarrow> GitHubClient \<Rightarrow> string \<Rightarrow> string \<Rightarrow> json \<Rightarrow> string \<Rightarrow> WorkflowResult io" where
  "execute_on_branch W user prompt on_progress on_stream create_pr conversation_history
       existing_pr_number repo_full_name client owner repo v_default_branch branch_name =
     bind_io (generate_edits W user prompt on_progress on_stream conversation_history client owner repo
                v_default_branch) (\<lambda>(changes, v_summary, v_next_steps).
       commit_and_report W prompt on_progress create_pr existing_pr_number repo_full_name client owner repo
         v_default_branch branch_name changes v_summary v_next_steps)"

text \<open>Lines 125 to 169 and the call of the rest: the body of the \<open>try\<close>.\<close>

definition execute_body :: "world \<Rightarrow> User \<Rightarrow> string \<Rightarrow> WorkflowProgress callback option
    \<Rightarrow> StreamingUpdate callback option \<Rightarrow> bool \<Rightarrow> json list option \<Rightarrow> string option \<Rightarrow> int option
    \<Rightarrow> string \<Rightarrow> string \<Rightarrow> string \<Rightarrow> string \<Rightarrow> WorkflowResult io" where
  "execute_body W user prompt on_progress on_stream create_pr conversation_history existing_branch
       existing_pr_number repo_full_name token owner repo =
     (let client = enter_client token
      in
     bind_io (progress on_progress ''init'' (emoji_satellite @ '' Connecting to repo...'') 10) (\<lambda>_.
     bind_io (get_repo W client owner repo) (\<lambda>found.
       case found of
         None \<Rightarrow> ret (failure ''Repository not found'' (''Could not access '' @ repo_full_name))
       | Some r \<Rightarrow>
           (let v_default_branch = default_branch r
            in
     bind_io (progress on_progress ''branch'' (emoji_magnifier @ '' Fetching branch...'') 20) (\<lambda>_.
     bind_io (get_branch_sha W client owner repo v_default_branch) (\<lambda>base_sha.
       if \<not> truthy base_sha
       then ret (failure ''Could not get branch SHA'' (''Could not read branch '' @ py_str v_default_branch))
       else if truthy_str existing_branch
       then (let branch_name = the existing_branch
             in bind_io (progress on_progress ''branch''
                           (emoji_herb @ '' Using existing branch '' @ branch_name @ ''...'') 30) (\<lambda>_.
                  execute_on_branch W user prompt on_progress on_stream create_pr conversation_history
                    existing_pr_number repo_full_name client owner repo v_default_branch branch_name))
       else bind_io (generate_branch_name W prompt) (\<lambda>branch_name.
            bind_io (progress on_progress ''branch''
                       (emoji_herb @ '' Creating branch '' @ branch_name @ ''...'') 30) (\<lambda>_.
            bind_io (create_branch W client owner repo branch_name base_sha) (\<lambda>branch_created.
              if \<not> branch_created
              then ret (failure ''Could not create branch'' (''Could not create branch '' @ branch_name))
              else execute_on_branch W user prompt on_progress on_stream create_pr conversation_history
                     existing_pr_number repo_full_name client owner repo v_default_branch branch_name)))))))))"

text \<open>
  The whole of \<open>execute\<close>. The two checks and the split of \<open>owner/repo\<close> stand before
  the \<open>try\<close>: an exception of the split reaches the caller.
\<close>

definition execute :: "world \<Rightarrow> User \<Rightarrow> string \<Rightarrow> WorkflowProgress callback option
    \<Rightarrow> StreamingUpdate callback option \<Rightarrow> bool \<Rightarrow> json list option \<Rightarrow> string option \<Rightarrow> int option
    \<Rightarrow> WorkflowResult io" where
  "execute W user prompt on_progress on_stream create_pr conversation_history existing_branch
       existing_pr_number =
     (case access_token (github user) of
        None \<Rightarrow> ret (failure ''GitHub not connected'' ''Connect GitHub first with /github'')
      | Some token \<Rightarrow>
          if \<not> truthy_str (selected_repo (github user))
          then ret (failure ''No repository selected'' ''Select a repo first with /repos'')
          else (let repo_full_name = the (selected_repo (github user))
                in case split (CHR ''/'') repo_full_name of
                     [owner, repo] \<Rightarrow>
                       try_except
                         (execute_body W user prompt on_progress on_stream create_pr conversation_history
                            existing_branch existing_pr_number repo_full_name token owner repo)
                         (\<lambda>e. ret (failure ''Workflow failed'' (str_exn e)))
                   | [_] \<Rightarrow> raise (ValueError ''not enough values to unpack (expected 2, got 1)'')
                   | _ \<Rightarrow> raise (ValueError ''too many values to unpack (expected 2)'')))"

section \<open>Reading a trace\<close>

text \<open>The updates delivered to \<open>on_stream\<close>, in order.\<close>

fun stream_events :: "event list \<Rightarrow> StreamingUpdate list" where
  "stream_events [] = []"
| "stream_events (StreamEvent u # tr) = u # stream_events tr"
| "stream_events (_ # tr) = stream_events tr"

text \<open>A call of \<open>create_branch\<close>: the only POST to \<open>.../git/refs\<close>.\<close>

fun is_create_branch_call :: "event \<Rightarrow> bool" where
  "is_create_branch_call (GitHubCall req _) =
     (req_method req = ''POST'' \<and> suffix ''/git/refs'' (req_endpoint req))"
| "is_create_branch_call _ = False"

fun is_model_call :: "event \<Rightarrow> bool" where
  "is_model_call (ModelCall _ _) = True"
| "is_model_call _ = False"


text \<open>The \<open>sha\<close> a request carries in its JSON body, if any.\<close>

definition request_sha :: "http_request \<Rightarrow> json option" where
  "request_sha req = (case req_json req of JDict kvs \<Rightarrow> map_of kvs ''sha'' | _ \<Rightarrow> None)"

text \<open>The answer that makes \<open>create_or_update_file\<close> go on to build a commit (line 245).\<close>

fun write_accepted :: "exn + (int \<times> json) \<Rightarrow> bool" where
  "write_accepted (Inr (st, data)) = ((st = 200 \<or> st = 201) \<and> truthy data)"
| "write_accepted (Inl _) = False"

text \<open>
  What \<open>get_file_content\<close> hands back as the SHA for an answer of GitHub
  (lines 210 to 215), when it does not raise.
\<close>

fun probed_sha :: "exn + (int \<times> json) \<Rightarrow> json" where
  "probed_sha (Inr (st, data)) =
     (if st \<noteq> 200 \<or> \<not> truthy data then JNull
      else (case py_get data ''sha'' JNull of Inr v \<Rightarrow> v | Inl _ \<Rightarrow> JNull))"
| "probed_sha (Inl _) = JNull"

text \<open>
  The \<open>writing_file\<close> updates that announce the paths \<open>fs\<close> one by one after the paths
  \<open>seen\<close>: each carries its path and the list of all paths up to it.
\<close>

fun announce :: "string list \<Rightarrow> string list \<Rightarrow> StreamingUpdate list" where
  "announce seen [] = []"
| "announce seen (f # fs) = writing_file_update f (seen @ [f]) # announce (seen @ [f]) fs"

section \<open>Example worlds\<close>

text \<open>
  A GitHub that knows the repository \<open>o/r\<close> with default branch \<open>main\<close>, accepts a new
  branch, every write and a pull request, and answers 404 to anything else (so no file
  exists yet on the working branch).
\<close>

definition github_ok :: "event list \<Rightarrow> http_request \<Rightarrow> exn + (int \<times> json)" where
  "github_ok tr req =
    (if req_method req = ''GET'' \<and> req_endpoint req = ''/repos/o/r''
     then Inr (200, JDict [(''id'', JInt 1), (''name'', JStr ''r''), (''full_name'', JStr ''o/r''),
                           (''private'', JBool False), (''default_branch'', JStr ''main''),
                           (''clone_url'', JStr ''https://github.com/o/r.git''),
                           (''ssh_url'', JStr ''git@github.com:o/r.git''),
                           (''html_url'', JStr ''https://github.com/o/r'')])
     else if req_method req = ''GET'' \<and> req_endpoint req = ''/repos/o/r/git/ref/heads/main''
     then Inr (200, JDict [(''object'', JDict [(''sha'', JStr ''abc'')])])
     else if req_method req = ''POST'' \<and> req_endpoint req = ''/repos/o/r/git/refs''
     then Inr (201, JDict [(''ref'', JStr ''refs/heads/new'')])
     else if req_method req = ''GET'' \<and> req_endpoint req = ''/repos/o/r/git/trees/abc''
     then Inr (200, JDict [(''tree'', JList [JDict [(''path'', JStr ''README.md''), (''type'', JStr ''blob'')]])])
     else if req_method req = ''PUT''
     then Inr (201, JDict [(''commit'', JDict [(''sha'', JStr ''c1'')])])
     else if req_method req = ''POST'' \<and> req_endpoint req = ''/repos/o/r/pulls''
     then Inr (201, JDict [(''html_url'', JStr ''https://github.com/o/r/pull/1'')])
     else Inr (404, JNull))"


definition github_not_found :: "event list \<Rightarrow> http_request \<Rightarrow> exn + (int \<times> json)" where
  "github_not_found tr req = Inr (404, JDict [(''message'', JStr ''Not Found'')])"

definition example_time :: datetime where
  "example_time = \<lparr>dt_year = 2026, dt_month = 1, dt_day = 2, dt_hour = 3, dt_minute = 4, dt_second = 5\<rparr>"

text \<open>A world whose model provider answers every call with HTTP 429.\<close>

definition world_429 :: world where
  "world_429 =
     \<lparr>gh_respond = github_ok,
      ai_respond = (\<lambda>tr req. Inr \<lparr>ai_status = 429, ai_lines = [], ai_error = None\<rparr>),
      json_loads = (\<lambda>s. None),
      b64encode = (\<lambda>s. s),
      b64decode_utf8 = (\<lambda>s. Inr s),
      utcnow = (\<lambda>tr. example_time),
      token_hex = (\<lambda>tr n. ''ab12'')\<rparr>"

text \<open>A world whose provider accepts the call and breaks the connection before the first line.\<close>

definition world_broken_stream :: world where
  "world_broken_stream =
     world_429\<lparr>ai_respond := (\<lambda>tr req. Inr \<lparr>ai_status = 200, ai_lines = [],
                                               ai_error = Some (ExternalError ''ReadTimeout'')\<rparr>)\<rparr>"

text \<open>
  A world whose model answers with the empty object \<open>{}\<close>, which holds no file. The
  decoder knows the two texts that occur.
\<close>

definition empty_answer_event :: string where
  \<open>empty_answer_event = ''{"choices":[{"delta":{"content":"{}"}}]}''\<close>

definition world_empty_answer :: world where
  "world_empty_answer =
     world_429\<lparr>ai_respond := (\<lambda>tr req. Inr \<lparr>ai_status = 200,
                                               ai_lines = [''data: '' @ empty_answer_event, ''data: [DONE]''],
                                               ai_error = None\<rparr>),
               json_loads := (\<lambda>s. if s = empty_answer_event
                                   then Some (JDict [(''choices'',
                                          JList [JDict [(''delta'', JDict [(''content'', JStr ''{}'')])]])])
                                   else if s = ''{}'' then Some (JDict [])
                                   else None)\<rparr>"

text \<open>
  A world whose model streams two pieces of text that name two files; \<open>E1\<close> and \<open>E2\<close>
  stand for the two event lines, and the decoder maps them and the whole answer to
  their values.
\<close>

definition answer_part1 :: string where
  \<open>answer_part1 = ''{"summary": "two files", "files": [{"path": "a.py", "content": "x"},''\<close>

definition answer_part2 :: string where
  \<open>answer_part2 = '' {"path": "b.py", "content": "y", "action": "update"}, {"path": "a.py"}]}''\<close>

definition two_files_value :: json where
  "two_files_value =
     JDict [(''summary'', JStr ''two files''),
            (''files'', JList [JDict [(''path'', JStr ''a.py''), (''content'', JStr ''x'')],
                              JDict [(''path'', JStr ''b.py''), (''content'', JStr ''y''),
                                     (''action'', JStr ''update'')],
                              JDict [(''path'', JStr ''a.py'')]])]"

definition world_two_files :: world where
  "world_two_files =
     world_429\<lparr>ai_respond := (\<lambda>tr req. Inr \<lparr>ai_status = 200,
                                               ai_lines = [''event: message'', ''data: E1'', ''data: E2'',
                                                           ''data: [DONE]''],
                                               ai_error = None\<rparr>),
               json_loads := (\<lambda>s. if s = ''E1''
                                   then Some (JDict [(''choices'',
                                          JList [JDict [(''delta'', JDict [(''content'', JStr answer_part1)])]])])
                                   else if s = ''E2''
                                   then Some (JDict [(''choices'',
                                          JList [JDict [(''delta'', JDict [(''content'', JStr answer_part2)])]])])
                                   else if s = answer_part1 @ answer_part2 then Some two_files_value
                                   else None)\<rparr>"

text \<open>Three shapes of one answer, and a decoder for them.\<close>

definition full_shape :: string where
  \<open>full_shape = ''{"summary": "s", "next_steps": ["n"], "files": [{"path": "a.py", "content": "x"}]}''\<close>

definition fenced_shape :: string where
  "fenced_shape = code_fence @ ''json'' @ nl @ full_shape @ nl @ code_fence"

definition legacy_shape :: string where
  \<open>legacy_shape = ''[{"path": "a.py", "content": "x"}]''\<close>

definition world_shapes :: world where
  "world_shapes =
     world_429\<lparr>json_loads := (\<lambda>s. if s = full_shape
                                   then Some (JDict [(''summary'', JStr ''s''),
                                                     (''next_steps'', JList [JStr ''n'']),
                                                     (''files'', JList [JDict [(''path'', JStr ''a.py''),
                                                                              (''content'', JStr ''x'')]])])
                                   else if s = legacy_shape
                                   then Some (JList [JDict [(''path'', JStr ''a.py''), (''content'', JStr ''x'')]])
                                   else None)\<rparr>"

definition example_user :: User where
  "example_user =
     \<lparr>api_keys = \<lparr>openai_key = None, anthropic_key = None\<rparr>,
      settings = \<lparr>default_model = ''gpt-5.2''\<rparr>,
      github = \<lparr>access_token = Some ''token'', selected_repo = Some ''o/r''\<rparr>\<rparr>"

definition example_user_with_key :: User where
  "example_user_with_key = example_user\<lparr>api_keys := \<lparr>openai_key = Some ''sk-1'', anthropic_key = None\<rparr>\<rparr>"

text \<open>A callback that never raises.\<close>

definition quiet :: "'a callback" where
  "quiet = (\<lambda>tr x. None)"

section \<open>Vocabulary of the properties\<close>

text \<open>
  A computation only ever appends to the trace. \<open>appends P m\<close> says so and that every
  event \<open>m\<close> appends satisfies \<open>P\<close>; \<open>returns m Q\<close> says that every value \<open>m\<close>
  returns satisfies \<open>Q\<close> (it says nothing about the runs that raise).
\<close>

definition appends :: "(event \<Rightarrow> bool) \<Rightarrow> 'a io \<Rightarrow> bool" where
  "appends P m \<longleftrightarrow> (\<forall>tr. \<exists>new. snd (m tr) = tr @ new \<and> list_all P new)"

definition returns :: "'a io \<Rightarrow> ('a \<Rightarrow> bool) \<Rightarrow> bool" where
  "returns m Q \<longleftrightarrow> (\<forall>tr x tr'. m tr = (Inr x, tr') \<longrightarrow> Q x)"

text \<open>What reaches a callback: nothing when there is none.\<close>

definition delivered :: "'c option \<Rightarrow> 'b list \<Rightarrow> 'b list" where
  "delivered cb evs = (case cb of None \<Rightarrow> [] | Some _ \<Rightarrow> evs)"

text \<open>The write calls of a trace with their answers, in order.\<close>

fun write_calls :: "event list \<Rightarrow> (http_request \<times> (exn + (int \<times> json))) list" where
  "write_calls [] = []"
| "write_calls (GitHubCall req resp # tr) =
     (if req_method req = ''PUT'' then (req, resp) # write_calls tr else write_calls tr)"
| "write_calls (_ # tr) = write_calls tr"

definition contents_url :: "string \<Rightarrow> string \<Rightarrow> json \<Rightarrow> string" where
  "contents_url owner repo path = repos_url owner repo @ ''/contents/'' @ py_str path"

text \<open>The read of a path on a branch, and the write of a change with a given SHA.\<close>

definition probe_request :: "string \<Rightarrow> string \<Rightarrow> string \<Rightarrow> string \<Rightarrow> json \<Rightarrow> http_request" where
  "probe_request token owner repo branch_name path =
     \<lparr>req_auth = ''Bearer '' @ token, req_method = ''GET'',
      req_endpoint = contents_url owner repo path,
      req_params = (if branch_name \<noteq> [] then [(''ref'', branch_name)] else []),
      req_json = JNull\<rparr>"

definition commit_message_of :: "FileChange \<Rightarrow> string" where
  "commit_message_of change =
     (if fc_action change = JStr ''create'' then ''Create'' else ''Update'') @ '' '' @ py_str (fc_path change)"

definition write_request :: "string \<Rightarrow> string \<Rightarrow> string \<Rightarrow> string \<Rightarrow> FileChange \<Rightarrow> string \<Rightarrow> json
    \<Rightarrow> http_request" where
  "write_request token owner repo branch_name change enc v_sha =
     \<lparr>req_auth = ''Bearer '' @ token, req_method = ''PUT'',
      req_endpoint = contents_url owner repo (fc_path change),
      req_params = [],
      req_json = JDict ([(''message'', JStr (commit_message_of change)), (''content'', JStr enc),
                         (''branch'', JStr branch_name)]
                        @ (if truthy v_sha then [(''sha'', v_sha)] else []))\<rparr>"

text \<open>The result says that at least one path was committed.\<close>

definition has_committed_paths :: "WorkflowResult \<Rightarrow> bool" where
  "has_committed_paths r = (case changed_files r of None \<Rightarrow> False | Some fs \<Rightarrow> fs \<noteq> [])"

text \<open>The two readings of the success flag agree: committed paths, and no error text.\<close>

definition consistent :: "WorkflowResult \<Rightarrow> bool" where
  "consistent r \<longleftrightarrow> (success r = has_committed_paths r) \<and> (success r = (error r = None))"

text \<open>\<open>P\<close> holds of every GitHub call whose method and endpoint satisfy \<open>ok\<close>.\<close>

definition on_requests :: "(string \<Rightarrow> string \<Rightarrow> bool) \<Rightarrow> (event \<Rightarrow> bool) \<Rightarrow> bool" where
  "on_requests ok P \<longleftrightarrow> (\<forall>req resp. ok (req_method req) (req_endpoint req) \<longrightarrow> P (GitHubCall req resp))"

definition not_branch_creation :: "string \<Rightarrow> string \<Rightarrow> bool" where
  "not_branch_creation method endpoint \<longleftrightarrow> \<not> (method = ''POST'' \<and> suffix ''/git/refs'' endpoint)"

text \<open>
  The outcome \<open>out\<close> of a step that started at trace \<open>tr\<close> with the paths \<open>seen\<close>: it
  has announced new, distinct paths, and if it returns, it returns the paths seen now.
\<close>

definition announces :: "StreamingUpdate callback option \<Rightarrow> string list \<Rightarrow> (exn + string list) \<times> event list
    \<Rightarrow> event list \<Rightarrow> bool" where
  "announces cb seen out tr \<longleftrightarrow>
     (\<exists>fs. distinct fs \<and> set fs \<inter> set seen = {}
         \<and> snd out = tr @ map StreamEvent (delivered cb (announce seen fs))
         \<and> (\<forall>d. fst out = Inr d \<longrightarrow> d = seen @ fs))"

definition announces_st :: "StreamingUpdate callback option \<Rightarrow> stream_state \<Rightarrow> (exn + stream_state) \<times> event list
    \<Rightarrow> event list \<Rightarrow> bool" where
  "announces_st cb st out tr \<longleftrightarrow>
     announces cb (files_detected st) (map_sum id files_detected (fst out), snd out) tr"

text \<open>
  The updates a streamed call may deliver: none at all, or \<open>thinking\<close>, then one
  \<open>writing_file\<close> update for each path of a duplicate-free list, then at most one
  \<open>done\<close> with that list. The stream is complete when the \<open>done\<close> is there.
\<close>

definition well_formed_stream :: "StreamingUpdate list \<Rightarrow> bool" where
  "well_formed_stream evs \<longleftrightarrow>
     evs = [] \<or> (\<exists>fs fin. distinct fs \<and> evs = thinking_update # announce [] fs @ fin
                          \<and> (fin = [] \<or> fin = [done_update fs]))"

definition complete_stream :: "StreamingUpdate list \<Rightarrow> bool" where
  "complete_stream evs \<longleftrightarrow>
     (\<exists>fs. distinct fs \<and> evs = thinking_update # announce [] fs @ [done_update fs])"

definition is_writing_file :: "StreamingUpdate \<Rightarrow> bool" where
  "is_writing_file u \<longleftrightarrow> status u = ''writing_file''"

text \<open>The ordering of the specification, on the status of the updates.\<close>

definition done_count :: "StreamingUpdate list \<Rightarrow> nat" where
  "done_count evs = length (filter (\<lambda>u. status u = ''done'') evs)"

definition thinking_first :: "StreamingUpdate list \<Rightarrow> bool" where
  "thinking_first evs \<longleftrightarrow>
     (\<forall>i < length evs. status (evs ! i) = ''writing_file'' \<longrightarrow> (\<exists>j < i. status (evs ! j) = ''thinking''))"

definition done_last :: "StreamingUpdate list \<Rightarrow> bool" where
  "done_last evs \<longleftrightarrow> done_count evs = 0 \<or> (evs \<noteq> [] \<and> status (last evs) = ''done'')"

text \<open>The stream updates a computation delivers when started at trace \<open>tr\<close>.\<close>

definition updates_of :: "'a io \<Rightarrow> event list \<Rightarrow> StreamingUpdate list" where
  "updates_of m tr = stream_events (drop (length tr) (snd (m tr)))"

text \<open>
  What holds of the updates of a streamed call \<open>m\<close> with callback \<open>cb\<close>: \<open>thinking\<close>
  comes before any \<open>writing_file\<close>; \<open>done\<close> comes at most once and last; it comes
  exactly once when the call returns changes and there is a callback; and a provider
  answer with a status other than 200 delivers nothing.
\<close>

definition ordered_updates :: "(FileChange list \<times> json \<times> json) io \<Rightarrow> StreamingUpdate callback option
    \<Rightarrow> event list \<Rightarrow> bool" where
  "ordered_updates m cb tr \<longleftrightarrow>
     thinking_first (updates_of m tr) \<and> done_count (updates_of m tr) \<le> 1 \<and> done_last (updates_of m tr)
     \<and> (\<forall>x. fst (m tr) = Inr x \<and> fst x \<noteq> [] \<and> cb \<noteq> None \<longrightarrow> done_count (updates_of m tr) = 1)
     \<and> (\<forall>req resp. ModelCall req (Inr resp) \<in> set (drop (length tr) (snd (m tr))) \<and> ai_status resp \<noteq> 200
           \<longrightarrow> updates_of m tr = [])"

text \<open>
  The part of a streamed call between the check of the status and the \<open>done\<close> update
  (lines 436 to 470 and 528 to 561): the \<open>thinking\<close> update and the loop over the lines.
\<close>

definition stream_read :: "StreamingUpdate callback option \<Rightarrow> (stream_state \<Rightarrow> string \<Rightarrow> stream_state io)
    \<Rightarrow> ai_response \<Rightarrow> stream_state io" where
  "stream_read cb handle resp =
     bind_io (call_back cb StreamEvent thinking_update) (\<lambda>_.
       stream_lines handle (ai_lines resp) (ai_error resp) initial_stream_state)"

text \<open>
  The new events \<open>new\<close> of a call started at \<open>tr\<close> begin with a request that the
  provider answered with status 200, and the stream of that answer was read to its end
  without an exception.
\<close>

definition read_to_end :: "StreamingUpdate callback option \<Rightarrow> (stream_state \<Rightarrow> string \<Rightarrow> stream_state io)
    \<Rightarrow> event list \<Rightarrow> event list \<Rightarrow> bool" where
  "read_to_end cb handle tr new =
     (case new of
        ModelCall req (Inr resp) # _ \<Rightarrow>
          ai_status resp = 200 \<and> \<not> isl (fst (stream_read cb handle resp (tr @ [ModelCall req (Inr resp)])))
      | _ \<Rightarrow> False)"

text \<open>
  \<open>done\<close> is delivered exactly once when there is a callback and the stream was read
  to its end, and not at all otherwise.
\<close>

definition done_when_read :: "(FileChange list \<times> json \<times> json) io \<Rightarrow> StreamingUpdate callback option
    \<Rightarrow> (stream_state \<Rightarrow> string \<Rightarrow> stream_state io) \<Rightarrow> event list \<Rightarrow> bool" where
  "done_when_read m cb handle tr \<longleftrightarrow>
     done_count (updates_of m tr)
       = (if cb \<noteq> None \<and> read_to_end cb handle tr (drop (length tr) (snd (m tr))) then 1 else 0)"

section \<open>Vocabulary of the commit stage\<close>

text \<open>All requests sent to GitHub in a trace, in order.\<close>

fun github_requests :: "event list \<Rightarrow> http_request list" where
  "github_requests [] = []"
| "github_requests (GitHubCall req _ # tr) = req # github_requests tr"
| "github_requests (_ # tr) = github_requests tr"

text \<open>
  The events one round of the commit loop appends, for the outcome \<open>res\<close> of the round.
  An \<open>update\<close> reads the path on the working branch first and then writes with the SHA
  that \<open>get_file_content\<close> handed back; any other action writes at once, with no SHA.
  The round can stop early by raising (the read, the decoding of what was read, the
  encoding of the new content); when it returns, it returns a commit exactly when the
  write was accepted.
\<close>

definition commit_events :: "world \<Rightarrow> string \<Rightarrow> string \<Rightarrow> string \<Rightarrow> string \<Rightarrow> FileChange \<Rightarrow> event list
    \<Rightarrow> exn + Commit option \<Rightarrow> event list \<Rightarrow> bool" where
  "commit_events W token owner repo branch_name change tr res new \<longleftrightarrow>
     (if fc_action change = JStr ''update''
      then (let probe = probe_request token owner repo branch_name (fc_path change);
                a = gh_respond W tr probe
            in (new = [GitHubCall probe a] \<and> isl res)
               \<or> (\<exists>enc b. py_b64encode W (fc_content change) = Inr enc
                     \<and> new = [GitHubCall probe a,
                              GitHubCall (write_request token owner repo branch_name change enc (probed_sha a)) b]
                     \<and> (isl res \<or> (projr res \<noteq> None) = write_accepted b)))
      else (new = [] \<and> isl res)
           \<or> (\<exists>enc b. py_b64encode W (fc_content change) = Inr enc
                 \<and> new = [GitHubCall (write_request token owner repo branch_name change enc JNull) b]
                 \<and> (isl res \<or> (projr res \<noteq> None) = write_accepted b)))"

text \<open>
  The SHA the write of a change carries (line 240 of the client: \<open>if sha\<close>), from the
  answer GitHub gives to the read at the trace \<open>tr\<close>.
\<close>

definition expected_sha :: "world \<Rightarrow> string \<Rightarrow> string \<Rightarrow> string \<Rightarrow> string \<Rightarrow> FileChange \<Rightarrow> event list
    \<Rightarrow> json option" where
  "expected_sha W token owner repo branch_name change tr =
     (if fc_action change = JStr ''update''
      then (let v_sha = probed_sha (gh_respond W tr (probe_request token owner repo branch_name (fc_path change)))
            in if truthy v_sha then Some v_sha else None)
      else None)"






text \<open>
  A GitHub on which \<open>b.py\<close> exists with SHA \<open>s1\<close> and the content \<open>old\<close> (in base64,
  \<open>b2xk\<close>): it refuses a write of \<open>b.py\<close> that does not carry that SHA. The codec of the
  world knows the two texts that occur.
\<close>

definition github_with_file :: "event list \<Rightarrow> http_request \<Rightarrow> exn + (int \<times> json)" where
  "github_with_file tr req =
     (if req_method req = ''GET'' \<and> req_endpoint req = ''/repos/o/r/contents/b.py''
      then Inr (200, JDict [(''sha'', JStr ''s1''), (''content'', JStr ''b2xk''), (''encoding'', JStr ''base64'')])
      else if req_method req = ''PUT'' \<and> req_endpoint req = ''/repos/o/r/contents/b.py''
              \<and> request_sha req \<noteq> Some (JStr ''s1'')
      then Inr (422, JDict [(''message'', JStr ''sha was not supplied'')])
      else github_ok tr req)"

definition world_with_file :: world where
  "world_with_file =
     world_429\<lparr>gh_respond := github_with_file,
               b64encode := (\<lambda>s. if s = ''y'' then ''eQ=='' else s),
               b64decode_utf8 := (\<lambda>s. if s = ''b2xk'' then Inr ''old'' else Inr s)\<rparr>"

text \<open>An \<open>update\<close> of \<open>b.py\<close>.\<close>

definition update_b :: FileChange where
  "update_b = \<lparr>fc_path = JStr ''b.py'', fc_content = JStr ''y'', fc_action = JStr ''update''\<rparr>"





section \<open>Rules for \<open>returns\<close> and \<open>appends\<close>\<close>

lemma returns_ret: "Q x \<Longrightarrow> returns (ret x) Q"
  by (simp add: returns_def ret_def)
lemma returns_raise: "returns (raise e) Q"
  by (simp add: returns_def raise_def)
lemma returns_bind: "(\<And>x. returns (f x) Q) \<Longrightarrow> returns (bind_io m f) Q"
  by (auto simp: returns_def bind_io_def split: prod.splits sum.splits)
lemma returns_try_except: "returns m Q \<Longrightarrow> (\<And>e. returns (h e) Q) \<Longrightarrow> returns (try_except m h) Q"
  by (auto simp: returns_def try_except_def split: prod.splits sum.splits)
lemma returns_if: "(c \<Longrightarrow> returns a Q) \<Longrightarrow> (\<not> c \<Longrightarrow> returns b Q) \<Longrightarrow> returns (if c then a else b) Q"
  by simp
lemma returns_case_prod: "(\<And>a b. returns (f a b) Q) \<Longrightarrow> returns (case p of (a, b) \<Rightarrow> f a b) Q"
  by (cases p) simp

text \<open>The same for \<open>appends\<close>: every step appends events of the given kind only.\<close>

lemma appends_ret: "appends P (ret x)"
  by (simp add: appends_def ret_def)
lemma appends_raise: "appends P (raise e)"
  by (simp add: appends_def raise_def)
lemma appends_lift: "appends P (lift r)"
  by (simp add: appends_def lift_def)

lemma appends_bind:
  assumes "appends P m" and "\<And>x. appends P (f x)"
  shows "appends P (bind_io m f)"
  unfolding appends_def
proof
  fix tr
  from assms(1) obtain n1 where m: "snd (m tr) = tr @ n1" "list_all P n1"
    unfolding appends_def by blast
  show "\<exists>new. snd (bind_io m f tr) = tr @ new \<and> list_all P new"
  proof (cases "fst (m tr)")
    case (Inl e)
    with m show ?thesis
      by (cases "m tr") (auto simp: bind_io_def)
  next
    case (Inr x)
    from assms(2)[of x] obtain n2 where f: "snd (f x (tr @ n1)) = (tr @ n1) @ n2" "list_all P n2"
      unfolding appends_def by blast
    with m Inr show ?thesis
      by (cases "m tr") (auto simp: bind_io_def intro!: exI[of _ "n1 @ n2"])
  qed
qed

lemma appends_try_except:
  assumes "appends P m" and "\<And>e. appends P (h e)"
  shows "appends P (try_except m h)"
  unfolding appends_def
proof
  fix tr
  from assms(1) obtain n1 where m: "snd (m tr) = tr @ n1" "list_all P n1"
    unfolding appends_def by blast
  show "\<exists>new. snd (try_except m h tr) = tr @ new \<and> list_all P new"
  proof (cases "fst (m tr)")
    case (Inr x)
    with m show ?thesis
      by (cases "m tr") (auto simp: try_except_def)
  next
    case (Inl e)
    from assms(2)[of e] obtain n2 where f: "snd (h e (tr @ n1)) = (tr @ n1) @ n2" "list_all P n2"
      unfolding appends_def by blast
    with m Inl show ?thesis
      by (cases "m tr") (auto simp: try_except_def intro!: exI[of _ "n1 @ n2"])
  qed
qed

lemma appends_if: "(c \<Longrightarrow> appends P a) \<Longrightarrow> (\<not> c \<Longrightarrow> appends P b) \<Longrightarrow> appends P (if c then a else b)"
  by simp
lemma appends_case_prod: "(\<And>a b. appends P (f a b)) \<Longrightarrow> appends P (case p of (a, b) \<Rightarrow> f a b)"
  by (cases p) simp
lemma appends_case_option: "appends P a \<Longrightarrow> (\<And>x. appends P (f x)) \<Longrightarrow> appends P (case v of None \<Rightarrow> a | Some x \<Rightarrow> f x)"
  by (cases v) simp_all

lemma appends_call_back: "(\<And>y. P (mk y)) \<Longrightarrow> appends P (call_back cb mk x)"
  by (auto simp: appends_def call_back_def split: option.splits)

lemma appends_progress: "(\<And>y. P (ProgressEvent y)) \<Longrightarrow> appends P (progress cb step msg pct)"
  unfolding progress_def by (rule appends_call_back)

lemma appends_request:
  "(\<And>resp. P (GitHubCall \<lparr>req_auth = ''Bearer '' @ client_token c, req_method = method,
                              req_endpoint = endpoint, req_params = params, req_json = body\<rparr> resp))
   \<Longrightarrow> appends P (request W c method endpoint params body)"
  by (auto simp: appends_def request_def Let_def)

lemma appends_post_stream: "(\<And>resp. P (ModelCall req resp)) \<Longrightarrow> appends P (post_stream W req)"
  by (auto simp: appends_def post_stream_def Let_def)

lemma appends_simple_file_creation: "appends P (simple_file_creation W prompt)"
  by (auto simp: appends_def simple_file_creation_def Let_def split: option.splits)


lemma appends_request':
  "on_requests ok P \<Longrightarrow> ok method endpoint \<Longrightarrow> appends P (request W c method endpoint params body)"
  by (rule appends_request) (simp add: on_requests_def)

lemma appends_get_repo: "on_requests ok P \<Longrightarrow> ok ''GET'' (repos_url owner repo) \<Longrightarrow> appends P (get_repo W c owner repo)"
  unfolding get_repo_def
  by (intro appends_bind appends_case_prod appends_if appends_ret appends_lift appends_request')

lemma appends_get_branch_sha:
  "on_requests ok P \<Longrightarrow> ok ''GET'' (repos_url owner repo @ ''/git/ref/heads/'' @ py_str b) \<Longrightarrow> appends P (get_branch_sha W c owner repo b)"
  unfolding get_branch_sha_def
  by (intro appends_bind appends_case_prod appends_if appends_ret appends_lift appends_request')

lemma appends_get_tree:
  "on_requests ok P \<Longrightarrow> (\<And>e. ok ''GET'' e) \<Longrightarrow> appends P (get_tree W c owner repo b rec)"
  unfolding get_tree_def Let_def
  by (intro appends_bind appends_case_prod appends_if appends_ret appends_lift appends_request') 

lemma appends_get_file_content:
  "on_requests ok P \<Longrightarrow> (\<And>e. ok ''GET'' e) \<Longrightarrow> appends P (get_file_content W c owner repo p ref)"
  unfolding get_file_content_def Let_def
  by (intro appends_bind appends_case_prod appends_if appends_ret appends_lift appends_request') 

lemma appends_create_or_update_file:
  "on_requests ok P \<Longrightarrow> (\<And>e. ok ''PUT'' e) \<Longrightarrow> appends P (create_or_update_file W c owner repo p content msg b s)"
  unfolding create_or_update_file_def Let_def
  by (intro appends_bind appends_case_prod appends_if appends_ret appends_lift appends_request') 

lemma appends_create_pull_request:
  "on_requests ok P \<Longrightarrow> ok ''POST'' (repos_url owner repo @ ''/pulls'') \<Longrightarrow> appends P (create_pull_request W c owner repo t b h base)"
  unfolding create_pull_request_def
  by (intro appends_bind appends_case_prod appends_if appends_ret appends_lift appends_request')


lemma appends_commit_change:
  "on_requests ok P \<Longrightarrow> (\<And>e. ok ''PUT'' e) \<Longrightarrow> (\<And>e. ok ''GET'' e) \<Longrightarrow> appends P (commit_change W c owner repo b change)"
  unfolding commit_change_def
  by (intro appends_bind appends_case_prod appends_if appends_ret appends_get_file_content appends_create_or_update_file)

lemma appends_commit_changes:
  "on_requests ok P \<Longrightarrow> (\<And>e. ok ''PUT'' e) \<Longrightarrow> (\<And>e. ok ''GET'' e) \<Longrightarrow> appends P (commit_changes W c owner repo b changes acc)"
  by (induction changes arbitrary: acc) (auto intro!: appends_ret appends_bind appends_commit_change)

lemma appends_notify_new_files:
  "(\<And>u. P (StreamEvent u)) \<Longrightarrow> appends P (notify_new_files cb new detected)"
  by (induction new arbitrary: detected) (auto intro!: appends_ret appends_bind appends_call_back)

lemma appends_add_text: "(\<And>u. P (StreamEvent u)) \<Longrightarrow> appends P (add_text cb st text)"
  unfolding add_text_def Let_def
  by (intro appends_bind appends_ret appends_notify_new_files)

lemma appends_add_json_text: "(\<And>u. P (StreamEvent u)) \<Longrightarrow> appends P (add_json_text cb st v)"
  unfolding add_json_text_def
  by (cases v) (auto intro!: appends_raise appends_add_text)

lemma appends_anthropic_event: "(\<And>u. P (StreamEvent u)) \<Longrightarrow> appends P (anthropic_event W cb st s)"
  unfolding anthropic_event_def
  by (auto split: option.splits intro!: appends_ret appends_bind appends_lift appends_add_json_text)

lemma appends_openai_event: "(\<And>u. P (StreamEvent u)) \<Longrightarrow> appends P (openai_event W cb st s)"
  unfolding openai_event_def
  by (auto split: option.splits intro!: appends_ret appends_bind appends_lift appends_add_json_text)

lemma appends_stream_lines:
  "(\<And>st s. appends P (handle st s)) \<Longrightarrow> appends P (stream_lines handle lines err st)"
  by (induction lines arbitrary: st)
     (auto simp: Let_def split: option.splits intro!: appends_ret appends_raise appends_bind)

lemma appends_consume_response:
  "(\<And>u. P (StreamEvent u)) \<Longrightarrow> (\<And>st s. appends P (handle st s))
   \<Longrightarrow> appends P (consume_response W cb handle resp)"
  unfolding consume_response_def
  by (intro appends_if appends_ret appends_bind appends_call_back appends_stream_lines appends_lift)

lemma appends_call_anthropic_streaming:
  "(\<And>u. P (StreamEvent u)) \<Longrightarrow> (\<And>req resp. P (ModelCall req resp))
   \<Longrightarrow> appends P (call_anthropic_streaming W k s u m cb)"
  unfolding call_anthropic_streaming_def Let_def
  by (intro appends_try_except appends_bind appends_post_stream appends_consume_response
            appends_anthropic_event appends_ret)

lemma appends_call_openai_streaming:
  "(\<And>u. P (StreamEvent u)) \<Longrightarrow> (\<And>req resp. P (ModelCall req resp))
   \<Longrightarrow> appends P (call_openai_streaming W k s u m cb)"
  unfolding call_openai_streaming_def Let_def
  by (intro appends_try_except appends_bind appends_post_stream appends_consume_response
            appends_openai_event appends_ret)

lemma appends_generate_ai_changes:
  "(\<And>u. P (StreamEvent u)) \<Longrightarrow> (\<And>req resp. P (ModelCall req resp))
   \<Longrightarrow> appends P (generate_ai_changes W user prompt ctx tree hist cb)"
  unfolding generate_ai_changes_def Let_def
  by (intro appends_bind appends_lift appends_if appends_raise appends_ret appends_case_option
            appends_call_anthropic_streaming appends_call_openai_streaming)

lemma appends_generate_edits:
  assumes "\<And>u. P (StreamEvent u)" "\<And>req resp. P (ModelCall req resp)" "\<And>y. P (ProgressEvent y)"
    and "on_requests ok P" "\<And>e. ok ''GET'' e"
  shows "appends P (generate_edits W user prompt on_progress on_stream hist client owner repo b)"
  unfolding generate_edits_def Let_def
  by (intro appends_bind appends_progress appends_get_tree[where ok=ok] appends_if appends_case_prod
            appends_ret appends_simple_file_creation appends_generate_ai_changes assms)

lemma appends_commit_and_report:
  assumes "\<And>y. P (ProgressEvent y)"
    and "on_requests ok P" "\<And>e. ok ''GET'' e" "\<And>e. ok ''PUT'' e" "ok ''POST'' (repos_url owner repo @ ''/pulls'')"
  shows "appends P (commit_and_report W prompt on_progress create_pr existing_pr_number repo_full_name client owner repo
       v_default_branch branch_name changes v_summary v_next_steps)"
  unfolding commit_and_report_def Let_def
  by (intro appends_bind appends_progress appends_commit_changes[where ok=ok] appends_if
            appends_case_prod appends_ret appends_create_pull_request[where ok=ok] appends_lift assms)

lemma appends_execute_on_branch:
  assumes "\<And>u. P (StreamEvent u)" "\<And>req resp. P (ModelCall req resp)" "\<And>y. P (ProgressEvent y)"
    and "on_requests ok P" "\<And>e. ok ''GET'' e" "\<And>e. ok ''PUT'' e" "ok ''POST'' (repos_url owner repo @ ''/pulls'')"
  shows "appends P (execute_on_branch W user prompt on_progress on_stream create_pr conversation_history
       existing_pr_number repo_full_name client owner repo v_default_branch branch_name)"
  unfolding execute_on_branch_def
  by (intro appends_bind appends_case_prod appends_generate_edits[where ok=ok] appends_commit_and_report[where ok=ok] assms)

section \<open>The result of \<open>execute\<close>\<close>

lemma consistent_failure: "consistent (failure m e)"
  by (simp add: consistent_def failure_def new_result_def has_committed_paths_def)

lemma returns_commit_and_report:
  "returns (commit_and_report W prompt on_progress create_pr existing_pr_number repo_full_name client owner repo
       v_default_branch branch_name changes v_summary v_next_steps) consistent"
  unfolding commit_and_report_def Let_def
  by (intro returns_bind returns_case_prod returns_if returns_ret consistent_failure)
     (simp add: consistent_def new_result_def has_committed_paths_def)

lemma returns_execute_on_branch:
  "returns (execute_on_branch W user prompt on_progress on_stream create_pr conversation_history
       existing_pr_number repo_full_name client owner repo v_default_branch branch_name) consistent"
  unfolding execute_on_branch_def
  by (intro returns_bind returns_case_prod returns_commit_and_report)

lemma returns_execute_body:
  "returns (execute_body W user prompt on_progress on_stream create_pr conversation_history existing_branch
       existing_pr_number repo_full_name token owner repo) consistent"
  unfolding execute_body_def Let_def
  by (auto split: option.splits
           intro!: returns_bind returns_if returns_ret consistent_failure returns_execute_on_branch)

lemma returns_execute:
  "returns (execute W user prompt on_progress on_stream create_pr conversation_history existing_branch
       existing_pr_number) consistent"
  unfolding execute_def Let_def
  by (auto split: option.splits list.splits
           intro!: returns_ret returns_raise returns_try_except consistent_failure returns_execute_body)



section \<open>Continuation on an existing branch\<close>

lemma nbc_on_requests: "on_requests not_branch_creation (\<lambda>ev. \<not> is_create_branch_call ev)"
  by (simp add: on_requests_def not_branch_creation_def)

lemma nbc_GET: "not_branch_creation ''GET'' e"
  by (simp add: not_branch_creation_def)

lemma nbc_PUT: "not_branch_creation ''PUT'' e"
  by (simp add: not_branch_creation_def)

lemma nbc_pulls: "not_branch_creation ''POST'' (repos_url owner repo @ ''/pulls'')"
  by (simp add: not_branch_creation_def suffix_to_prefix)

lemma continuation_appends_body:
  assumes "truthy_str existing_branch"
  shows "appends (\<lambda>ev. \<not> is_create_branch_call ev)
           (execute_body W user prompt on_progress on_stream create_pr conversation_history existing_branch
              existing_pr_number repo_full_name token owner repo)"
  unfolding execute_body_def Let_def using assms
  by (auto split: option.splits
           intro!: appends_bind appends_progress appends_ret
                   appends_get_repo[where ok=not_branch_creation]
                   appends_get_branch_sha[where ok=not_branch_creation]
                   appends_execute_on_branch[where ok=not_branch_creation]
                   nbc_on_requests nbc_GET nbc_PUT nbc_pulls)

lemma continuation_appends:
  assumes "truthy_str existing_branch"
  shows "appends (\<lambda>ev. \<not> is_create_branch_call ev)
           (execute W user prompt on_progress on_stream create_pr conversation_history existing_branch
              existing_pr_number)"
  unfolding execute_def Let_def
  by (auto split: option.splits list.splits
           intro!: appends_ret appends_raise appends_try_except continuation_appends_body assms)

lemma returns_branch_commit_and_report:
  "returns (commit_and_report W prompt on_progress create_pr existing_pr_number repo_full_name client owner repo
       v_default_branch branch_name changes v_summary v_next_steps) (\<lambda>r. success r \<longrightarrow> branch r = Some branch_name)"
  unfolding commit_and_report_def Let_def
  by (intro returns_bind returns_case_prod returns_if returns_ret)
     (simp_all add: failure_def new_result_def)

lemma returns_branch_body:
  assumes "truthy_str existing_branch"
  shows "returns (execute_body W user prompt on_progress on_stream create_pr conversation_history existing_branch
              existing_pr_number repo_full_name token owner repo) (\<lambda>r. success r \<longrightarrow> branch r = existing_branch)"
  unfolding execute_body_def execute_on_branch_def Let_def using assms
  by (auto split: option.splits simp: failure_def new_result_def truthy_str_def
           intro!: returns_bind returns_ret returns_case_prod returns_branch_commit_and_report)

lemma returns_branch_execute:
  assumes "truthy_str existing_branch"
  shows "returns (execute W user prompt on_progress on_stream create_pr conversation_history existing_branch
              existing_pr_number) (\<lambda>r. success r \<longrightarrow> branch r = existing_branch)"
  unfolding execute_def Let_def
  by (auto split: option.splits list.splits simp: failure_def new_result_def
           intro!: returns_ret returns_raise returns_try_except returns_branch_body assms)

lemma returns_no_branch_commit_and_report:
  "returns (commit_and_report W prompt on_progress create_pr existing_pr_number repo_full_name client owner repo
       v_default_branch branch_name changes v_summary v_next_steps) (\<lambda>r. \<not> success r \<longrightarrow> branch r = None)"
  unfolding commit_and_report_def Let_def
  by (intro returns_bind returns_case_prod returns_if returns_ret)
     (simp_all add: failure_def new_result_def)

lemma returns_no_branch_body:
  "returns (execute_body W user prompt on_progress on_stream create_pr conversation_history existing_branch
              existing_pr_number repo_full_name token owner repo) (\<lambda>r. \<not> success r \<longrightarrow> branch r = None)"
  unfolding execute_body_def execute_on_branch_def Let_def
  by (auto split: option.splits simp: failure_def new_result_def
           intro!: returns_bind returns_ret returns_case_prod returns_if returns_no_branch_commit_and_report)

lemma returns_no_branch_execute:
  "returns (execute W user prompt on_progress on_stream create_pr conversation_history existing_branch
              existing_pr_number) (\<lambda>r. \<not> success r \<longrightarrow> branch r = None)"
  unfolding execute_def Let_def
  by (auto split: option.splits list.splits simp: failure_def new_result_def
           intro!: returns_ret returns_raise returns_try_except returns_no_branch_body)

text \<open>
  Claim C2, as the code has it. For every run with a non-empty \<open>existing_branch\<close>, no
  event of the run is a call of \<open>create_branch\<close>; whenever the run returns a
  successful result, its \<open>branch\<close> field is \<open>existing_branch\<close>; and whenever it returns
  a failure, the \<open>branch\<close> field is \<open>None\<close>.
\<close>

theorem continuation_reuses_branch:
  assumes "truthy_str existing_branch"
    and "execute W user prompt on_progress on_stream create_pr conversation_history existing_branch
              existing_pr_number tr = (res, tr')"
  shows "(\<exists>new. tr' = tr @ new \<and> list_all (\<lambda>ev. \<not> is_create_branch_call ev) new)
       \<and> (\<forall>r. res = Inr r \<and> success r \<longrightarrow> branch r = existing_branch)
       \<and> (\<forall>r. res = Inr r \<and> \<not> success r \<longrightarrow> branch r = None)"
proof (intro conjI)
  from continuation_appends[OF assms(1)] assms(2)
  show "\<exists>new. tr' = tr @ new \<and> list_all (\<lambda>ev. \<not> is_create_branch_call ev) new"
    unfolding appends_def by (metis snd_conv)
  from returns_branch_execute[OF assms(1)] assms(2)
  show "\<forall>r. res = Inr r \<and> success r \<longrightarrow> branch r = existing_branch"
    unfolding returns_def by blast
  from returns_no_branch_execute assms(2)
  show "\<forall>r. res = Inr r \<and> \<not> success r \<longrightarrow> branch r = None"
    unfolding returns_def by blast
qed

text \<open>A continuation that succeeds, and one that fails because the model call is refused.\<close>

theorem continuation_reuses_branch_witness:
  "truthy_str (Some ''amadeus/health-0101-ab12'')
   \<and> list_all (\<lambda>ev. \<not> is_create_branch_call ev)
       (snd (execute world_429 example_user ''fix bug'' None None True None
               (Some ''amadeus/health-0101-ab12'') (Some 42) []))
   \<and> success (projr (fst (execute world_429 example_user ''fix bug'' None None True None
               (Some ''amadeus/health-0101-ab12'') (Some 42) [])))
   \<and> branch (projr (fst (execute world_429 example_user ''fix bug'' None None True None
               (Some ''amadeus/health-0101-ab12'') (Some 42) []))) = Some ''amadeus/health-0101-ab12''
   \<and> \<not> success (projr (fst (execute world_429 example_user_with_key ''fix bug'' None None True None
               (Some ''amadeus/health-0101-ab12'') (Some 42) [])))
   \<and> branch (projr (fst (execute world_429 example_user_with_key ''fix bug'' None None True None
               (Some ''amadeus/health-0101-ab12'') (Some 42) []))) = None"
proof -
  let ?run = "execute world_429 example_user ''fix bug'' None None True None
                (Some ''amadeus/health-0101-ab12'') (Some 42) []"
  let ?bad = "execute world_429 example_user_with_key ''fix bug'' None None True None
                (Some ''amadeus/health-0101-ab12'') (Some 42) []"
  have t: "truthy_str (Some ''amadeus/health-0101-ab12'')"
    by (simp add: truthy_str_def)
  have s: "\<not> isl (fst ?run) \<and> success (projr (fst ?run))"
    by code_simp
  then have r: "fst ?run = Inr (projr (fst ?run))"
    by simp
  have "?run = (fst ?run, snd ?run)"
    by simp
  from continuation_reuses_branch[OF t this] r s t have 1:
    "list_all (\<lambda>ev. \<not> is_create_branch_call ev) (snd ?run) \<and> success (projr (fst ?run))
     \<and> branch (projr (fst ?run)) = Some ''amadeus/health-0101-ab12''"
    by auto
  have f: "\<not> isl (fst ?bad) \<and> \<not> success (projr (fst ?bad))"
    by code_simp
  then have rb: "fst ?bad = Inr (projr (fst ?bad))"
    by simp
  have "?bad = (fst ?bad, snd ?bad)"
    by simp
  from continuation_reuses_branch[OF t this] rb f have 2:
    "\<not> success (projr (fst ?bad)) \<and> branch (projr (fst ?bad)) = None"
    by auto
  from t 1 2 show ?thesis by simp
qed

text \<open>
  The claim as the specification states it fails: with \<open>existing_branch\<close> set and a
  repository that GitHub does not find, the result is a failure whose \<open>branch\<close> field is
  \<open>None\<close>, not \<open>existing_branch\<close>.
\<close>

theorem continuation_failure_has_no_branch:
  "fst (execute (world_429\<lparr>gh_respond := github_not_found\<rparr>) example_user ''fix bug'' None None True None
          (Some ''amadeus/health-0101-ab12'') (Some 42) [])
     = Inr (failure ''Repository not found'' ''Could not access o/r'')
   \<and> branch (failure ''Repository not found'' ''Could not access o/r'') \<noteq> Some ''amadeus/health-0101-ab12''"
  by code_simp

section \<open>The three shapes of an answer\<close>

text \<open>
  Claim C5. The full object and the same object in a code fence parse to the same
  changes. The bare list of file objects does not: \<open>data.get("summary")\<close> runs before
  the test \<open>isinstance(data, list)\<close> and raises \<open>AttributeError\<close>, which
  \<open>_parse_ai_response_with_meta\<close> does not catch.
\<close>

theorem legacy_list_shape_raises:
  "parse_ai_response_with_meta world_shapes full_shape
     = Inr ([\<lparr>fc_path = JStr ''a.py'', fc_content = JStr ''x'', fc_action = JStr ''create''\<rparr>],
            JStr ''s'', JList [JStr ''n''])
   \<and> parse_ai_response_with_meta world_shapes fenced_shape
     = Inr ([\<lparr>fc_path = JStr ''a.py'', fc_content = JStr ''x'', fc_action = JStr ''create''\<rparr>],
            JStr ''s'', JList [JStr ''n''])
   \<and> parse_ai_response_with_meta world_shapes legacy_shape = Inl (AttributeError ''list'' ''get'')"
  by code_simp

text \<open>The same for every decoder and every text that decodes to a list.\<close>

lemma list_answer_raises:
  "json_loads W (strip_code_fence content) = Some (JList items)
   \<Longrightarrow> parse_ai_response_with_meta W content = Inl (AttributeError ''list'' ''get'')"
  by (simp add: parse_ai_response_with_meta_def bind_exn_def)

section \<open>The fallback after a model call without changes\<close>

text \<open>
  Claim C6. With a credential, a model call that completes with HTTP 200 and an answer
  holding no file does not lead to the fallback edit: \<open>_generate_ai_changes\<close> raises
  \<open>ValueError\<close>, the run ends as a failure and no file is written.
\<close>

theorem empty_answer_ends_run:
  "fst (execute world_empty_answer example_user_with_key ''fix bug'' None None True None None None [])
     = Inr (failure ''Workflow failed'' ''AI returned no changes. Try a more specific request.'')
   \<and> write_calls (snd (execute world_empty_answer example_user_with_key ''fix bug'' None None True None
                          None None [])) = []"
  by code_simp

text \<open>
  Claim C8. The same when the provider answers HTTP 429: no file
  \<open>amadeus_change_<timestamp>.md\<close> is committed and the run fails.
\<close>

theorem rate_limited_call_ends_run:
  "fst (execute world_429 example_user_with_key ''fix bug'' None None True None None None [])
     = Inr (failure ''Workflow failed'' ''AI returned no changes. Try a more specific request.'')
   \<and> write_calls (snd (execute world_429 example_user_with_key ''fix bug'' None None True None
                          None None [])) = []
   \<and> has_committed_paths (projr (fst (execute world_429 example_user_with_key ''fix bug'' None None True
                          None None None []))) = False"
  by code_simp

text \<open>
  Without a credential the fallback is used and committed, here under the name
  \<open>amadeus_change_<timestamp>.md\<close>.
\<close>

lemma fallback_without_credential:
  "fst (execute world_429 example_user ''fix bug'' None None True None None None [])
     = Inr ((new_result True ''Changes pushed successfully!'')
              \<lparr>commit_sha := JStr ''c1'',
               commit_url := Some ''https://github.com/o/r/commit/c1'',
               pr_url := JStr ''https://github.com/o/r/pull/1'',
               branch := Some ''amadeus/update-01020304-ab12'',
               changed_files := Some [JStr ''amadeus_change_20260102_030405.md'']\<rparr>)"
  by code_simp

section \<open>Exceptions that reach the caller\<close>

text \<open>
  Claim C10. The split of \<open>selected_repo\<close> at line 118 stands before the \<open>try\<close>: for a
  repository name without a slash the \<open>ValueError\<close> of the unpacking reaches the caller,
  and \<open>execute\<close> returns no result.
\<close>

theorem split_error_reaches_caller:
  "execute world_429
     (example_user\<lparr>github := \<lparr>access_token = Some ''token'', selected_repo = Some ''norepo''\<rparr>\<rparr>)
     ''fix bug'' None None True None None None []
   = (Inl (ValueError ''not enough values to unpack (expected 2, got 1)''), [])"
  by code_simp

text \<open>
  Past that line the claim holds: when the name splits into owner and repository,
  \<open>execute\<close> returns a result, and a result without success carries an error text.
\<close>

lemma try_except_returns: "\<exists>r. fst (try_except m (\<lambda>e. ret (g e)) tr) = Inr r"
  by (cases "m tr"; cases "fst (m tr)") (auto simp: try_except_def ret_def)

lemma execute_returns_when_repo_splits:
  assumes "selected_repo (github user) = Some name" and "split (CHR ''/'') name = [owner, repo]"
  shows "\<exists>r. fst (execute W user prompt on_progress on_stream create_pr conversation_history existing_branch
                    existing_pr_number tr) = Inr r"
proof (cases "access_token (github user)")
  case None
  then show ?thesis by (simp add: execute_def ret_def)
next
  case (Some token)
  from assms(2) have "name \<noteq> []" by auto
  with assms Some show ?thesis
    by (simp add: execute_def truthy_str_def try_except_returns)
qed

lemma failure_result_has_error:
  assumes "execute W user prompt on_progress on_stream create_pr conversation_history existing_branch
             existing_pr_number tr = (Inr r, tr')"
    and "\<not> success r"
  shows "error r \<noteq> None"
  using returns_execute assms unfolding returns_def consistent_def by blast

section \<open>What a streamed call delivers\<close>

lemma announce_append: "announce seen (fs @ gs) = announce seen fs @ announce (seen @ fs) gs"
  by (induction fs arbitrary: seen) auto

lemma delivered_append: "delivered cb (xs @ ys) = delivered cb xs @ delivered cb ys"
  by (simp add: delivered_def split: option.splits)

lemma delivered_Nil: "delivered cb [] = []"
  by (simp add: delivered_def split: option.splits)

lemma announces_ret: "announces cb seen (Inr seen, tr) tr"
  unfolding announces_def by (rule exI[of _ "[]"]) (simp add: delivered_Nil)

lemma announces_raise: "announces cb seen (Inl e, tr) tr"
  unfolding announces_def by (rule exI[of _ "[]"]) (simp add: delivered_Nil)

lemma announces_step:
  assumes 1: "announces cb seen (Inr d1, tr1) tr"
    and 2: "announces cb d1 out tr1"
  shows "announces cb seen out tr"
proof -
  from 1 obtain fs where fs: "distinct fs" "set fs \<inter> set seen = {}"
      "tr1 = tr @ map StreamEvent (delivered cb (announce seen fs))" "d1 = seen @ fs"
    unfolding announces_def by auto
  from 2 obtain gs where gs: "distinct gs" "set gs \<inter> set d1 = {}"
      "snd out = tr1 @ map StreamEvent (delivered cb (announce d1 gs))"
      "\<forall>d. fst out = Inr d \<longrightarrow> d = d1 @ gs"
    unfolding announces_def by auto
  show ?thesis
    unfolding announces_def
  proof (intro exI[of _ "fs @ gs"] conjI)
    show "distinct (fs @ gs)" using fs gs by auto
    show "set (fs @ gs) \<inter> set seen = {}" using fs gs by auto
    show "snd out = tr @ map StreamEvent (delivered cb (announce seen (fs @ gs)))"
      using fs gs by (simp add: announce_append delivered_append)
    show "\<forall>d. fst out = Inr d \<longrightarrow> d = seen @ fs @ gs" using fs gs by simp
  qed
qed

lemma announces_fail:
  assumes 1: "announces cb seen (Inl e, tr1) tr"
  shows "announces cb seen (Inl e', tr1) tr"
  using assms unfolding announces_def by auto

lemma notify_announces:
  "announces cb seen (notify_new_files cb new seen tr) tr"
proof (induction new arbitrary: seen tr)
  case Nil
  show ?case by (simp add: ret_def announces_ret)
next
  case (Cons f fs)
  show ?case
  proof (cases "f \<in> set seen")
    case True
    then show ?thesis using Cons.IH by simp
  next
    case False
    show ?thesis
    proof (cases cb)
      case None
      have a: "announces cb seen (Inr (seen @ [f]), tr) tr"
        unfolding announces_def using False None
        by (intro exI[of _ "[f]"]) (simp add: delivered_def)
      from announces_step[OF a Cons.IH[of "seen @ [f]" tr]]
      show ?thesis using False None by (simp add: bind_io_def call_back_def)
    next
      case (Some g)
      let ?tr1 = "tr @ [StreamEvent (writing_file_update f (seen @ [f]))]"
      show ?thesis
      proof (cases "g tr (writing_file_update f (seen @ [f]))")
        case None
        have a: "announces cb seen (Inr (seen @ [f]), ?tr1) tr"
          unfolding announces_def using False Some
          by (intro exI[of _ "[f]"]) (simp add: delivered_def)
        from announces_step[OF a Cons.IH[of "seen @ [f]" ?tr1]]
        show ?thesis using False Some None by (simp add: bind_io_def call_back_def)
      next
        case (Some e)
        have a: "announces cb seen (Inl e, ?tr1) tr"
          unfolding announces_def using False \<open>cb = Some g\<close>
          by (intro exI[of _ "[f]"]) (simp add: delivered_def)
        then show ?thesis using False \<open>cb = Some g\<close> Some by (simp add: bind_io_def call_back_def)
      qed
    qed
  qed
qed

lemma announces_st_ret: "announces_st cb st (Inr st, tr) tr"
  by (simp add: announces_st_def announces_ret)

lemma announces_st_raise: "announces_st cb st (Inl e, tr) tr"
  by (simp add: announces_st_def announces_raise)

lemma announces_st_step:
  "announces_st cb st (Inr st1, tr1) tr \<Longrightarrow> announces_st cb st1 out tr1 \<Longrightarrow> announces_st cb st out tr"
  unfolding announces_st_def by (simp add: announces_step)

lemma add_text_announces: "announces_st cb st (add_text cb st text tr) tr"
proof -
  let ?content = "full_content st @ text"
  let ?new = "findall_paths (drop (last_update_len st) ?content)"
  have n: "announces cb (files_detected st) (notify_new_files cb ?new (files_detected st) tr) tr"
    by (rule notify_announces)
  show ?thesis
  proof (cases "notify_new_files cb ?new (files_detected st) tr")
    case (Pair r tr1)
    then show ?thesis using n
      by (cases r) (auto simp: announces_st_def add_text_def Let_def bind_io_def ret_def announces_def)
  qed
qed

lemma add_json_text_announces: "announces_st cb st (add_json_text cb st v tr) tr"
  by (cases v) (simp_all add: add_json_text_def raise_def announces_st_raise add_text_announces)

lemma lift_bind: "bind_io (lift r) f tr = (case r of Inl e \<Rightarrow> (Inl e, tr) | Inr x \<Rightarrow> f x tr)"
  by (simp add: bind_io_def lift_def split: sum.splits)

lemma anthropic_event_announces: "announces_st cb st (anthropic_event W cb st s tr) tr"
  unfolding anthropic_event_def
  by (auto simp: lift_bind ret_def announces_st_ret announces_st_raise add_json_text_announces
           split: option.splits sum.splits)

lemma openai_event_announces: "announces_st cb st (openai_event W cb st s tr) tr"
  unfolding openai_event_def
  by (auto simp: lift_bind ret_def announces_st_ret announces_st_raise add_json_text_announces
           split: option.splits sum.splits)

lemma stream_lines_announces:
  assumes h: "\<And>st s tr. announces_st cb st (handle st s tr) tr"
  shows "announces_st cb st (stream_lines handle lines err st tr) tr"
proof (induction lines arbitrary: st tr)
  case Nil
  show ?case by (cases err) (simp_all add: ret_def raise_def announces_st_ret announces_st_raise)
next
  case (Cons line rest)
  show ?case
  proof (cases "\<not> startswith line ''data: ''")
    case True
    then show ?thesis using Cons.IH by simp
  next
    case False
    show ?thesis
    proof (cases "drop 6 line = ''[DONE]''")
      case True
      then show ?thesis using False by (simp add: ret_def announces_st_ret)
    next
      case nd: False
      show ?thesis
      proof (cases "handle st (drop 6 line) tr")
        case (Pair r tr1)
        show ?thesis
        proof (cases r)
          case (Inl e)
          with Pair h[of st "drop 6 line" tr] show ?thesis
            using False nd by (simp add: bind_io_def)
        next
          case (Inr st1)
          with Pair h[of st "drop 6 line" tr] have a: "announces_st cb st (Inr st1, tr1) tr" by simp
          from announces_st_step[OF a Cons.IH[of st1 tr1]]
          show ?thesis using False nd Pair Inr by (simp add: bind_io_def)
        qed
      qed
    qed
  qed
qed

lemma stream_events_append: "stream_events (xs @ ys) = stream_events xs @ stream_events ys"
  by (induction xs rule: stream_events.induct) auto

lemma stream_events_map: "stream_events (map StreamEvent us) = us"
  by (induction us) auto

lemma call_back_trace:
  "snd (call_back cb StreamEvent u tr) = tr @ map StreamEvent (delivered cb [u])"
  by (auto simp: call_back_def delivered_def split: option.splits)

lemma well_formed_partial: "distinct fs \<Longrightarrow> well_formed_stream (thinking_update # announce [] fs)"
  unfolding well_formed_stream_def
  by (rule disjI2, rule exI[of _ fs], rule exI[of _ "[]"]) simp

lemma well_formed_thinking: "well_formed_stream [thinking_update]"
  using well_formed_partial[of "[]"] by simp

lemma well_formed_complete: "complete_stream evs \<Longrightarrow> well_formed_stream evs"
  unfolding well_formed_stream_def complete_stream_def by blast

lemma status_announce: "u \<in> set (announce seen fs) \<Longrightarrow> status u = ''writing_file''"
  by (induction fs arbitrary: seen) (auto simp: writing_file_update_def new_update_def)

lemma filter_writing_announce: "filter is_writing_file (announce seen fs) = announce seen fs"
  by (induction fs arbitrary: seen) (auto simp: is_writing_file_def writing_file_update_def new_update_def)

lemma done_count_announce: "done_count (announce seen fs) = 0"
  unfolding done_count_def by (auto simp: filter_empty_conv dest: status_announce)

lemma done_count_append: "done_count (xs @ ys) = done_count xs + done_count ys"
  by (simp add: done_count_def)

lemma well_formed_writing:
  assumes "well_formed_stream evs"
  shows "\<exists>ps. distinct ps \<and> filter is_writing_file evs = announce [] ps"
proof (cases "evs = []")
  case True
  then show ?thesis by (intro exI[of _ "[]"]) simp
next
  case False
  with assms obtain fs fin where e: "distinct fs" "evs = thinking_update # announce [] fs @ fin"
      "fin = [] \<or> fin = [done_update fs]"
    unfolding well_formed_stream_def by blast
  then have "filter is_writing_file evs = announce [] fs"
    by (auto simp: filter_writing_announce is_writing_file_def thinking_update_def done_update_def new_update_def)
  with e(1) show ?thesis by blast
qed

lemma well_formed_order:
  assumes "well_formed_stream evs"
  shows "thinking_first evs \<and> done_count evs \<le> 1 \<and> done_last evs"
proof (cases "evs = []")
  case True
  then show ?thesis by (simp add: thinking_first_def done_count_def done_last_def)
next
  case False
  with assms obtain fs fin where e: "distinct fs" "evs = thinking_update # announce [] fs @ fin"
      "fin = [] \<or> fin = [done_update fs]"
    unfolding well_formed_stream_def by blast
  have t: "status thinking_update = ''thinking''"
    by (simp add: thinking_update_def new_update_def)
  have d: "status (done_update fs) = ''done''"
    by (simp add: done_update_def new_update_def)
  have 1: "thinking_first evs"
    unfolding thinking_first_def
  proof (intro allI impI)
    fix i assume "i < length evs" "status (evs ! i) = ''writing_file''"
    with e(2) t have "0 < i" by (cases i) auto
    moreover have "status (evs ! 0) = ''thinking''" using e(2) t by simp
    ultimately show "\<exists>j<i. status (evs ! j) = ''thinking''" by blast
  qed
  have c: "done_count evs = done_count fin"
    using e(2) t done_count_announce[of "[]" fs]
    by (simp add: done_count_def)
  from e(3) show ?thesis
  proof
    assume "fin = []"
    with c 1 show ?thesis by (simp add: done_count_def done_last_def)
  next
    assume f: "fin = [done_update fs]"
    with c d have "done_count evs = 1" by (simp add: done_count_def)
    moreover have "status (last evs) = ''done''" using e(2) f d by simp
    ultimately show ?thesis using 1 False by (simp add: done_last_def)
  qed
qed

lemma complete_done_once:
  assumes "complete_stream evs"
  shows "done_count evs = 1"
proof -
  from assms obtain fs where e: "evs = thinking_update # announce [] fs @ [done_update fs]"
    unfolding complete_stream_def by blast
  have "done_count evs = done_count [thinking_update] + done_count (announce [] fs) + done_count [done_update fs]"
    unfolding e by (simp add: done_count_def)
  then show ?thesis
    by (simp add: done_count_announce) (simp add: done_count_def thinking_update_def done_update_def new_update_def)
qed

lemma well_formed_delivered: "well_formed_stream evs \<Longrightarrow> well_formed_stream (delivered cb evs)"
  by (cases cb) (simp_all add: delivered_def well_formed_stream_def)

lemma done_count_partial: "done_count (thinking_update # announce [] fs) = 0"
  using done_count_announce[of "[]" fs]
  by (simp add: done_count_def thinking_update_def new_update_def)

lemma consume_shape:
  assumes h: "\<And>st s tr. announces_st cb st (handle st s tr) tr"
  shows "\<exists>evs. snd (consume_response W cb handle resp tr) = tr @ map StreamEvent (delivered cb evs)
            \<and> well_formed_stream evs
            \<and> (ai_status resp \<noteq> 200 \<longrightarrow> evs = [])
            \<and> (\<forall>x. fst (consume_response W cb handle resp tr) = Inr x \<and> fst x \<noteq> [] \<longrightarrow> complete_stream evs)
            \<and> done_count evs
                = (if ai_status resp = 200 \<and> \<not> isl (fst (stream_read cb handle resp tr)) then 1 else 0)"
proof (cases "ai_status resp \<noteq> 200")
  case True
  then show ?thesis
    by (intro exI[of _ "[]"])
       (simp add: consume_response_def ret_def delivered_Nil well_formed_stream_def done_count_def)
next
  case ok: False
  let ?tr1 = "tr @ map StreamEvent (delivered cb [thinking_update])"
  show ?thesis
  proof (cases "fst (call_back cb StreamEvent thinking_update tr)")
    case (Inl e)
    then have c1: "call_back cb StreamEvent thinking_update tr = (Inl e, ?tr1)"
      using call_back_trace[of cb thinking_update tr]
      by (cases "call_back cb StreamEvent thinking_update tr") simp
    then have "consume_response W cb handle resp tr = (Inl e, ?tr1)"
      using ok by (simp add: consume_response_def bind_io_def)
    moreover have "isl (fst (stream_read cb handle resp tr))"
      using c1 by (simp add: stream_read_def bind_io_def)
    moreover have "done_count [thinking_update] = 0"
      using done_count_partial[of "[]"] by simp
    ultimately show ?thesis using ok
      by (intro exI[of _ "[thinking_update]"]) (simp add: well_formed_thinking)
  next
    case (Inr u)
    then have c1: "call_back cb StreamEvent thinking_update tr = (Inr (), ?tr1)"
      using call_back_trace[of cb thinking_update tr]
      by (cases "call_back cb StreamEvent thinking_update tr") simp
    let ?s = "stream_lines handle (ai_lines resp) (ai_error resp) initial_stream_state ?tr1"
    have sr: "stream_read cb handle resp tr = ?s"
      using c1 by (simp add: stream_read_def bind_io_def)
    have "announces_st cb initial_stream_state ?s ?tr1"
      by (rule stream_lines_announces[OF h])
    then obtain fs where fs: "distinct fs"
        "snd ?s = ?tr1 @ map StreamEvent (delivered cb (announce [] fs))"
        "\<forall>st. fst ?s = Inr st \<longrightarrow> files_detected st = fs"
      unfolding announces_st_def announces_def initial_stream_state_def
      by (cases "fst ?s") auto
    show ?thesis
    proof (cases "fst ?s")
      case (Inl e)
      then have "consume_response W cb handle resp tr = (Inl e, snd ?s)"
        using ok c1 by (cases ?s) (simp add: consume_response_def bind_io_def)
      moreover have "isl (fst (stream_read cb handle resp tr))"
        unfolding sr using Inl by simp
      ultimately show ?thesis using ok fs
        by (intro exI[of _ "thinking_update # announce [] fs"])
           (auto simp: well_formed_partial done_count_partial delivered_def split: option.splits)
    next
      case (Inr st)
      with fs have fd: "files_detected st = fs" by simp
      obtain tr2 where s: "?s = (Inr st, tr2)" using Inr by (cases ?s) simp
      with fs have tr2: "tr2 = ?tr1 @ map StreamEvent (delivered cb (announce [] fs))" by simp
      obtain r3 tr3 where c3: "call_back cb StreamEvent (done_update fs) tr2 = (r3, tr3)"
        by (cases "call_back cb StreamEvent (done_update fs) tr2")
      with call_back_trace[of cb "done_update fs" tr2]
      have tr3: "tr3 = tr2 @ map StreamEvent (delivered cb [done_update fs])" by simp
      have shape: "tr3 = tr @ map StreamEvent (delivered cb (thinking_update # announce [] fs @ [done_update fs]))"
        unfolding tr3 tr2 by (simp add: delivered_def split: option.splits)
      have "snd (consume_response W cb handle resp tr) = tr3"
        using ok c1 s fd c3
        by (cases r3) (simp_all add: consume_response_def bind_io_def lift_def)
      moreover have cs: "complete_stream (thinking_update # announce [] fs @ [done_update fs])"
        using fs(1) unfolding complete_stream_def by blast
      moreover have "\<not> isl (fst (stream_read cb handle resp tr))"
        unfolding sr using Inr by simp
      ultimately show ?thesis using ok shape complete_done_once[OF cs]
        by (intro exI[of _ "thinking_update # announce [] fs @ [done_update fs]"])
           (auto simp: well_formed_complete)
    qed
  qed
qed

lemma call_shape:
  assumes h: "\<And>st s tr. announces_st cb st (handle st s tr) tr"
  shows "\<exists>evs. snd (try_except (bind_io (post_stream W req) (consume_response W cb handle))
                          (\<lambda>e. ret ([], JNull, JNull)) tr)
                 = tr @ ModelCall req (ai_respond W tr req) # map StreamEvent (delivered cb evs)
            \<and> well_formed_stream evs
            \<and> ((\<exists>resp. ai_respond W tr req = Inr resp \<and> ai_status resp \<noteq> 200) \<longrightarrow> evs = [])
            \<and> (\<forall>x. fst (try_except (bind_io (post_stream W req) (consume_response W cb handle))
                          (\<lambda>e. ret ([], JNull, JNull)) tr) = Inr x \<and> fst x \<noteq> [] \<longrightarrow> complete_stream evs)"
proof (cases "ai_respond W tr req")
  case (Inl e)
  then show ?thesis
    by (intro exI[of _ "[]"])
       (simp add: try_except_def bind_io_def post_stream_def ret_def Let_def delivered_Nil well_formed_stream_def)
next
  case (Inr resp)
  let ?tr1 = "tr @ [ModelCall req (Inr resp)]"
  from consume_shape[where handle=handle and cb=cb and W=W and resp=resp and tr="?tr1", OF h] obtain evs where
    evs: "snd (consume_response W cb handle resp ?tr1) = ?tr1 @ map StreamEvent (delivered cb evs)"
      "well_formed_stream evs" "ai_status resp \<noteq> 200 \<longrightarrow> evs = []"
      "\<forall>x. fst (consume_response W cb handle resp ?tr1) = Inr x \<and> fst x \<noteq> [] \<longrightarrow> complete_stream evs"
    by blast
  let ?c = "consume_response W cb handle resp ?tr1"
  have b: "bind_io (post_stream W req) (consume_response W cb handle) tr = ?c"
    using Inr by (simp add: bind_io_def post_stream_def Let_def)
  show ?thesis
  proof (intro exI[of _ evs] conjI)
    show "snd (try_except (bind_io (post_stream W req) (consume_response W cb handle))
                    (\<lambda>e. ret ([], JNull, JNull)) tr)
            = tr @ ModelCall req (ai_respond W tr req) # map StreamEvent (delivered cb evs)"
      using b evs(1) Inr
      by (cases ?c; cases "fst ?c") (auto simp: try_except_def ret_def)
    show "well_formed_stream evs" by (rule evs(2))
    show "(\<exists>resp. ai_respond W tr req = Inr resp \<and> ai_status resp \<noteq> 200) \<longrightarrow> evs = []"
      using Inr evs(3) by auto
    show "\<forall>x. fst (try_except (bind_io (post_stream W req) (consume_response W cb handle))
                          (\<lambda>e. ret ([], JNull, JNull)) tr) = Inr x \<and> fst x \<noteq> [] \<longrightarrow> complete_stream evs"
      using b evs(4)
      by (cases ?c; cases "fst ?c") (auto simp: try_except_def ret_def)
  qed
qed

text \<open>Both calls are instances of the shape lemma.\<close>

lemma anthropic_shape:
  "\<exists>req evs. snd (call_anthropic_streaming W key sys msg model cb tr)
                 = tr @ ModelCall req (ai_respond W tr req) # map StreamEvent (delivered cb evs)
            \<and> well_formed_stream evs
            \<and> ((\<exists>resp. ai_respond W tr req = Inr resp \<and> ai_status resp \<noteq> 200) \<longrightarrow> evs = [])
            \<and> (\<forall>x. fst (call_anthropic_streaming W key sys msg model cb tr) = Inr x \<and> fst x \<noteq> []
                     \<longrightarrow> complete_stream evs)"
  unfolding call_anthropic_streaming_def Let_def
  by (rule exI, rule call_shape) (rule anthropic_event_announces)

lemma openai_shape:
  "\<exists>req evs. snd (call_openai_streaming W key sys msg model cb tr)
                 = tr @ ModelCall req (ai_respond W tr req) # map StreamEvent (delivered cb evs)
            \<and> well_formed_stream evs
            \<and> ((\<exists>resp. ai_respond W tr req = Inr resp \<and> ai_status resp \<noteq> 200) \<longrightarrow> evs = [])
            \<and> (\<forall>x. fst (call_openai_streaming W key sys msg model cb tr) = Inr x \<and> fst x \<noteq> []
                     \<longrightarrow> complete_stream evs)"
  unfolding call_openai_streaming_def Let_def
  by (rule exI, rule call_shape) (rule openai_event_announces)

text \<open>What follows from the shape, for any computation that has it.\<close>

lemma shape_updates:
  assumes "snd (m tr) = tr @ ModelCall req r # map StreamEvent (delivered cb evs)"
  shows "updates_of m tr = delivered cb evs"
  using assms by (simp add: updates_of_def stream_events_map)

lemma shape_growing:
  assumes "snd (m tr) = tr @ ModelCall req r # map StreamEvent (delivered cb evs)"
    and "well_formed_stream evs"
  shows "\<exists>ps. distinct ps \<and> filter is_writing_file (updates_of m tr) = announce [] ps"
  using well_formed_writing[OF well_formed_delivered[OF assms(2), of cb]]
    shape_updates[where m=m and tr=tr, OF assms(1)]
  by simp

text \<open>
  Claim C9. For both providers, the \<open>writing_file\<close> updates of a streamed call are
  exactly the announcements of a duplicate-free list of paths \<open>ps\<close>, one by one: the
  update number \<open>k\<close> carries the path \<open>ps ! k\<close> and, as \<open>files_so_far\<close>, the first
  \<open>k + 1\<close> paths. So each list is the one before with one new path appended, no path
  is dropped or moved, and no path is announced twice.
\<close>

theorem files_so_far_grows:
  "(\<exists>ps. distinct ps \<and>
      filter is_writing_file (updates_of (call_anthropic_streaming W key sys msg model on_stream) tr)
        = announce [] ps)
   \<and> (\<exists>ps. distinct ps \<and>
      filter is_writing_file (updates_of (call_openai_streaming W key sys msg model on_stream) tr)
        = announce [] ps)"
proof
  let ?a = "call_anthropic_streaming W key sys msg model on_stream"
  let ?b = "call_openai_streaming W key sys msg model on_stream"
  from anthropic_shape[of W key sys msg model on_stream tr] obtain req evs where
    "snd (?a tr) = tr @ ModelCall req (ai_respond W tr req) # map StreamEvent (delivered on_stream evs)"
    "well_formed_stream evs" by blast
  then show "\<exists>ps. distinct ps \<and> filter is_writing_file (updates_of ?a tr) = announce [] ps"
    by (rule shape_growing[where m="?a" and tr=tr])
  from openai_shape[of W key sys msg model on_stream tr] obtain req evs where
    "snd (?b tr) = tr @ ModelCall req (ai_respond W tr req) # map StreamEvent (delivered on_stream evs)"
    "well_formed_stream evs" by blast
  then show "\<exists>ps. distinct ps \<and> filter is_writing_file (updates_of ?b tr) = announce [] ps"
    by (rule shape_growing[where m="?b" and tr=tr])
qed

lemma shape_ordered:
  assumes s: "snd (m tr) = tr @ ModelCall req (ai_respond W tr req) # map StreamEvent (delivered cb evs)"
    and w: "well_formed_stream evs"
    and n: "(\<exists>resp. ai_respond W tr req = Inr resp \<and> ai_status resp \<noteq> 200) \<longrightarrow> evs = []"
    and c: "\<forall>x. fst (m tr) = Inr x \<and> fst x \<noteq> [] \<longrightarrow> complete_stream evs"
  shows "ordered_updates m cb tr"
proof -
  have u: "updates_of m tr = delivered cb evs" by (rule shape_updates[where m=m and tr=tr, OF s])
  have o: "thinking_first (delivered cb evs) \<and> done_count (delivered cb evs) \<le> 1 \<and> done_last (delivered cb evs)"
    by (rule well_formed_order[OF well_formed_delivered[OF w]])
  have d: "\<forall>x. fst (m tr) = Inr x \<and> fst x \<noteq> [] \<and> cb \<noteq> None \<longrightarrow> done_count (delivered cb evs) = 1"
    using c complete_done_once by (auto simp: delivered_def)
  have z: "\<forall>rq resp. ModelCall rq (Inr resp) \<in> set (drop (length tr) (snd (m tr))) \<and> ai_status resp \<noteq> 200
           \<longrightarrow> delivered cb evs = []"
    using n unfolding s by (auto simp: delivered_Nil)
  show ?thesis unfolding ordered_updates_def u using o d z by blast
qed

lemma call_done:
  assumes h: "\<And>st s tr. announces_st cb st (handle st s tr) tr"
  shows "done_when_read (try_except (bind_io (post_stream W req) (consume_response W cb handle))
                          (\<lambda>e. ret ([], JNull, JNull))) cb handle tr"
proof (cases "ai_respond W tr req")
  case (Inl e)
  then have "snd (try_except (bind_io (post_stream W req) (consume_response W cb handle))
                          (\<lambda>e. ret ([], JNull, JNull)) tr) = tr @ [ModelCall req (Inl e)]"
    by (simp add: try_except_def bind_io_def post_stream_def ret_def Let_def)
  then show ?thesis
    by (simp add: done_when_read_def updates_of_def read_to_end_def done_count_def)
next
  case (Inr resp)
  let ?tr1 = "tr @ [ModelCall req (Inr resp)]"
  let ?m = "try_except (bind_io (post_stream W req) (consume_response W cb handle)) (\<lambda>e. ret ([], JNull, JNull))"
  from consume_shape[where handle=handle and cb=cb and W=W and resp=resp and tr="?tr1", OF h] obtain evs where
    evs: "snd (consume_response W cb handle resp ?tr1) = ?tr1 @ map StreamEvent (delivered cb evs)"
      "done_count evs = (if ai_status resp = 200 \<and> \<not> isl (fst (stream_read cb handle resp ?tr1)) then 1 else 0)"
    by blast
  let ?c = "consume_response W cb handle resp ?tr1"
  have b: "bind_io (post_stream W req) (consume_response W cb handle) tr = ?c"
    using Inr by (simp add: bind_io_def post_stream_def Let_def)
  have s: "snd (?m tr) = tr @ ModelCall req (Inr resp) # map StreamEvent (delivered cb evs)"
    using b evs(1)
    by (cases ?c; cases "fst ?c") (auto simp: try_except_def ret_def)
  have u: "updates_of ?m tr = delivered cb evs"
    by (rule shape_updates[where m="?m" and tr=tr, OF s])
  have r: "read_to_end cb handle tr (drop (length tr) (snd (?m tr)))
             = (ai_status resp = 200 \<and> \<not> isl (fst (stream_read cb handle resp ?tr1)))"
    unfolding s by (simp add: read_to_end_def)
  show ?thesis
    unfolding done_when_read_def u r using evs(2)
    by (cases cb) (simp_all add: delivered_def done_count_def)
qed

lemma anthropic_done:
  "done_when_read (call_anthropic_streaming W key sys msg model cb) cb (anthropic_event W cb) tr"
  unfolding call_anthropic_streaming_def Let_def
  by (rule call_done) (rule anthropic_event_announces)

lemma openai_done:
  "done_when_read (call_openai_streaming W key sys msg model cb) cb (openai_event W cb) tr"
  unfolding call_openai_streaming_def Let_def
  by (rule call_done) (rule openai_event_announces)

lemma calls_ordered:
  "ordered_updates (call_anthropic_streaming W key sys msg model on_stream) on_stream tr
   \<and> ordered_updates (call_openai_streaming W key sys msg model on_stream) on_stream tr"
proof
  let ?a = "call_anthropic_streaming W key sys msg model on_stream"
  let ?b = "call_openai_streaming W key sys msg model on_stream"
  from anthropic_shape[of W key sys msg model on_stream tr] obtain req evs where
    "snd (?a tr) = tr @ ModelCall req (ai_respond W tr req) # map StreamEvent (delivered on_stream evs)"
    "well_formed_stream evs"
    "(\<exists>resp. ai_respond W tr req = Inr resp \<and> ai_status resp \<noteq> 200) \<longrightarrow> evs = []"
    "\<forall>x. fst (?a tr) = Inr x \<and> fst x \<noteq> [] \<longrightarrow> complete_stream evs" by blast
  then show "ordered_updates ?a on_stream tr"
    by (rule shape_ordered[where m="?a" and tr=tr])
  from openai_shape[of W key sys msg model on_stream tr] obtain req evs where
    "snd (?b tr) = tr @ ModelCall req (ai_respond W tr req) # map StreamEvent (delivered on_stream evs)"
    "well_formed_stream evs"
    "(\<exists>resp. ai_respond W tr req = Inr resp \<and> ai_status resp \<noteq> 200) \<longrightarrow> evs = []"
    "\<forall>x. fst (?b tr) = Inr x \<and> fst x \<noteq> [] \<longrightarrow> complete_stream evs" by blast
  then show "ordered_updates ?b on_stream tr"
    by (rule shape_ordered[where m="?b" and tr=tr])
qed

text \<open>
  Claim C4, as the code has it. For both providers, \<open>thinking\<close> comes before any
  \<open>writing_file\<close> update; \<open>done\<close> comes at most once and is then the last update; it
  comes exactly once when the call returns changes; when the provider answers with a
  status other than 200 no update is delivered at all; and, with a callback, \<open>done\<close>
  comes exactly once when the provider answers 200 and the stream is read to its end
  without an exception, whether or not the answer holds changes, and not at all
  otherwise.
\<close>

theorem stream_updates_ordered:
  "ordered_updates (call_anthropic_streaming W key sys msg model on_stream) on_stream tr
   \<and> ordered_updates (call_openai_streaming W key sys msg model on_stream) on_stream tr
   \<and> done_when_read (call_anthropic_streaming W key sys msg model on_stream) on_stream
       (anthropic_event W on_stream) tr
   \<and> done_when_read (call_openai_streaming W key sys msg model on_stream) on_stream
       (openai_event W on_stream) tr"
  using calls_ordered[of W key sys msg model on_stream tr]
    anthropic_done[of W key sys msg model on_stream tr] openai_done[of W key sys msg model on_stream tr]
  by simp

lemma announce_nth:
  "k < length fs \<Longrightarrow> announce seen fs ! k = writing_file_update (fs ! k) (seen @ take (Suc k) fs)"
proof (induction fs arbitrary: seen k)
  case Nil
  then show ?case by simp
next
  case (Cons f fs)
  then show ?case by (cases k) simp_all
qed

theorem files_so_far_grows_witness:
  "distinct [''a.py'', ''b.py'']
   \<and> filter is_writing_file
         (updates_of (call_openai_streaming world_two_files ''sk-1'' system_prompt ''fix bug'' ''gpt-5.2''
                        (Some quiet)) [])
       = announce [] [''a.py'', ''b.py'']"
proof -
  have e: "filter is_writing_file
         (updates_of (call_openai_streaming world_two_files ''sk-1'' system_prompt ''fix bug'' ''gpt-5.2''
                        (Some quiet)) [])
       = announce [] [''a.py'', ''b.py'']"
    by code_simp
  from files_so_far_grows[of world_two_files "''sk-1''" system_prompt "''fix bug''" "''gpt-5.2''" "Some quiet" "[]"]
  have "\<exists>ps. distinct ps \<and> announce [] [''a.py'', ''b.py''] = announce [] ps"
    unfolding e by blast
  with e show ?thesis by simp
qed

theorem stream_updates_ordered_witness:
  "fst (projr (fst (call_openai_streaming world_two_files ''sk-1'' system_prompt ''fix bug'' ''gpt-5.2''
                      (Some quiet) []))) \<noteq> []
   \<and> done_count (updates_of (call_openai_streaming world_two_files ''sk-1'' system_prompt ''fix bug''
                                ''gpt-5.2'' (Some quiet)) []) = 1
   \<and> thinking_first (updates_of (call_openai_streaming world_two_files ''sk-1'' system_prompt ''fix bug''
                                ''gpt-5.2'' (Some quiet)) [])
   \<and> done_last (updates_of (call_openai_streaming world_two_files ''sk-1'' system_prompt ''fix bug''
                                ''gpt-5.2'' (Some quiet)) [])
   \<and> fst (projr (fst (call_openai_streaming world_empty_answer ''sk-1'' system_prompt ''fix bug'' ''gpt-5.2''
                      (Some quiet) []))) = []
   \<and> done_count (updates_of (call_openai_streaming world_empty_answer ''sk-1'' system_prompt ''fix bug''
                                ''gpt-5.2'' (Some quiet)) []) = 1
   \<and> done_count (updates_of (call_anthropic_streaming world_broken_stream ''sk-ant-1'' system_prompt
                                ''fix bug'' ''claude-sonnet-4-20250514'' (Some quiet)) []) = 0"
proof -
  let ?m = "call_openai_streaming world_two_files ''sk-1'' system_prompt ''fix bug'' ''gpt-5.2'' (Some quiet)"
  let ?e = "call_openai_streaming world_empty_answer ''sk-1'' system_prompt ''fix bug'' ''gpt-5.2'' (Some quiet)"
  let ?b = "call_anthropic_streaming world_broken_stream ''sk-ant-1'' system_prompt ''fix bug''
              ''claude-sonnet-4-20250514'' (Some quiet)"
  have e: "\<not> isl (fst (?m [])) \<and> fst (projr (fst (?m []))) \<noteq> []"
    by code_simp
  then have r: "fst (?m []) = Inr (projr (fst (?m [])))"
    by simp
  from stream_updates_ordered[of world_two_files "''sk-1''" system_prompt "''fix bug''" "''gpt-5.2''" "Some quiet" "[]"]
  have o: "ordered_updates ?m (Some quiet) []" by simp
  then have 4: "fst (?m []) = Inr (projr (fst (?m []))) \<and> fst (projr (fst (?m []))) \<noteq> []
                  \<and> Some quiet \<noteq> (None :: StreamingUpdate callback option)
                \<longrightarrow> done_count (updates_of ?m []) = 1"
    unfolding ordered_updates_def by blast
  from r e 4 have d: "done_count (updates_of ?m []) = 1"
    by simp
  from o have t: "thinking_first (updates_of ?m []) \<and> done_last (updates_of ?m [])"
    unfolding ordered_updates_def by blast
  have n: "fst (projr (fst (?e []))) = []" by code_simp
  have re: "read_to_end (Some quiet) (openai_event world_empty_answer (Some quiet)) []
              (drop (length ([] :: event list)) (snd (?e [])))"
    by code_simp
  from stream_updates_ordered[of world_empty_answer "''sk-1''" system_prompt "''fix bug''" "''gpt-5.2''" "Some quiet" "[]"]
  have "done_when_read ?e (Some quiet) (openai_event world_empty_answer (Some quiet)) []" by simp
  with re have d2: "done_count (updates_of ?e []) = 1"
    unfolding done_when_read_def by simp
  have rb: "\<not> read_to_end (Some quiet) (anthropic_event world_broken_stream (Some quiet)) []
              (drop (length ([] :: event list)) (snd (?b [])))"
    by code_simp
  from stream_updates_ordered[of world_broken_stream "''sk-ant-1''" system_prompt "''fix bug''"
         "''claude-sonnet-4-20250514''" "Some quiet" "[]"]
  have "done_when_read ?b (Some quiet) (anthropic_event world_broken_stream (Some quiet)) []" by simp
  with rb have d3: "done_count (updates_of ?b []) = 0"
    unfolding done_when_read_def by simp
  from e d t n d2 d3 show ?thesis
    by simp
qed

text \<open>
  The claim as the specification states it fails: \<open>done\<close> is not delivered when the
  provider answers 429 (nothing is delivered), nor when the stream breaks after the call
  was accepted (only \<open>thinking\<close> is delivered).
\<close>

theorem no_done_on_failed_call:
  "updates_of (call_openai_streaming world_429 ''sk-1'' system_prompt ''fix bug'' ''gpt-5.2'' (Some quiet)) []
     = []
   \<and> updates_of (call_anthropic_streaming world_broken_stream ''sk-ant-1'' system_prompt ''fix bug''
                    ''claude-sonnet-4-20250514'' (Some quiet)) []
     = [thinking_update]
   \<and> done_count [] \<noteq> 1 \<and> done_count [thinking_update] \<noteq> 1"
  by code_simp

section \<open>The commit stage\<close>

subsection \<open>One request and what follows it\<close>

lemma request_open:
  "request W (enter_client token) method endpoint params body tr =
     (gh_respond W tr \<lparr>req_auth = ''Bearer '' @ token, req_method = method, req_endpoint = endpoint,
                  req_params = params, req_json = body\<rparr>,
      tr @ [GitHubCall \<lparr>req_auth = ''Bearer '' @ token, req_method = method, req_endpoint = endpoint,
                  req_params = params, req_json = body\<rparr>
              (gh_respond W tr \<lparr>req_auth = ''Bearer '' @ token, req_method = method, req_endpoint = endpoint,
                  req_params = params, req_json = body\<rparr>)])"
  by (simp add: request_def enter_client_def Let_def)

lemma bind_exn_Inr: "bind_exn m f = Inr y \<Longrightarrow> \<exists>x. m = Inr x \<and> f x = Inr y"
  by (cases m) (simp_all add: bind_exn_def)

text \<open>A request followed by a pure interpretation of the answer.\<close>

lemma request_then:
  assumes "\<And>x. f x = lift (g x)"
  shows "bind_io (request W (enter_client token) method endpoint params body) f tr =
     (let req = \<lparr>req_auth = ''Bearer '' @ token, req_method = method, req_endpoint = endpoint,
                  req_params = params, req_json = body\<rparr>;
          a = gh_respond W tr req
      in (case a of Inl e \<Rightarrow> Inl e | Inr x \<Rightarrow> g x, tr @ [GitHubCall req a]))"
  by (simp add: bind_io_def request_open assms lift_def Let_def split: sum.splits)

lemma get_file_content_run:
  "get_file_content W (enter_client token) owner repo path (Some branch_name) tr =
     (let a = gh_respond W tr (probe_request token owner repo branch_name path)
      in (case a of
            Inl e \<Rightarrow> Inl e
          | Inr (st, data) \<Rightarrow>
              if st \<noteq> 200 \<or> \<not> truthy data then Inr (JNull, JNull)
              else bind_exn (py_get data ''content'' (JStr [])) (\<lambda>enc.
                   bind_exn (py_b64decode W enc) (\<lambda>content.
                   bind_exn (py_get data ''sha'' JNull) (\<lambda>v_sha.
                     Inr (JStr content, v_sha)))),
          tr @ [GitHubCall (probe_request token owner repo branch_name path) a]))"
proof -
  have f: "\<And>x. (case x of (st, data) \<Rightarrow>
              if st \<noteq> 200 \<or> \<not> truthy data then ret (JNull, JNull)
              else lift (
                bind_exn (py_get data ''content'' (JStr [])) (\<lambda>enc.
                bind_exn (py_b64decode W enc) (\<lambda>content.
                bind_exn (py_get data ''sha'' JNull) (\<lambda>v_sha.
                  Inr (JStr content, v_sha))))))
           = lift (case x of (st, data) \<Rightarrow>
              if st \<noteq> 200 \<or> \<not> truthy data then Inr (JNull, JNull)
              else bind_exn (py_get data ''content'' (JStr [])) (\<lambda>enc.
                   bind_exn (py_b64decode W enc) (\<lambda>content.
                   bind_exn (py_get data ''sha'' JNull) (\<lambda>v_sha.
                     Inr (JStr content, v_sha)))))"
    by (auto simp: ret_def lift_def split: prod.splits)
  have p: "probe_request token owner repo branch_name path
           = \<lparr>req_auth = ''Bearer '' @ token, req_method = ''GET'',
              req_endpoint = repos_url owner repo @ ''/contents/'' @ py_str path,
              req_params = (if truthy_str (Some branch_name) then [(''ref'', the (Some branch_name))] else []),
              req_json = JNull\<rparr>"
    by (simp add: probe_request_def contents_url_def truthy_str_def)
  show ?thesis
    unfolding get_file_content_def Let_def p
    by (subst request_then[OF f]) (simp only: Let_def)
qed

lemma bind_lift_Inr: "bind_io (lift (Inr x)) f tr = f x tr"
  by (simp add: bind_io_def lift_def)

lemma create_or_update_file_run:
  assumes enc: "py_b64encode W (fc_content change) = Inr enc"
  shows "create_or_update_file W (enter_client token) owner repo (fc_path change) (fc_content change)
          (commit_message_of change) branch_name v_sha tr =
     (let a = gh_respond W tr (write_request token owner repo branch_name change enc v_sha)
      in (case a of
            Inl e \<Rightarrow> Inl e
          | Inr (st, data) \<Rightarrow>
              if (st \<noteq> 200 \<and> st \<noteq> 201) \<or> \<not> truthy data then Inr None
              else bind_exn (py_get data ''commit'' (JDict [])) (\<lambda>commit_data.
                   bind_exn (py_get commit_data ''sha'' (JStr [])) (\<lambda>c_sha.
                   bind_exn (py_get commit_data ''message'' (JStr (commit_message_of change))) (\<lambda>c_msg.
                   bind_exn (py_get commit_data ''html_url'' (JStr [])) (\<lambda>c_url.
                     Inr (Some \<lparr>sha = c_sha, commit_message = c_msg, html_url = c_url\<rparr>))))),
          tr @ [GitHubCall (write_request token owner repo branch_name change enc v_sha) a]))"
proof -
  have f: "\<And>x. (case x of (st, data) \<Rightarrow>
                if (st \<noteq> 200 \<and> st \<noteq> 201) \<or> \<not> truthy data then ret None
                else lift (
                  bind_exn (py_get data ''commit'' (JDict [])) (\<lambda>commit_data.
                  bind_exn (py_get commit_data ''sha'' (JStr [])) (\<lambda>c_sha.
                  bind_exn (py_get commit_data ''message'' (JStr (commit_message_of change))) (\<lambda>c_msg.
                  bind_exn (py_get commit_data ''html_url'' (JStr [])) (\<lambda>c_url.
                    Inr (Some \<lparr>sha = c_sha, commit_message = c_msg, html_url = c_url\<rparr>)))))))
           = lift (case x of (st, data) \<Rightarrow>
              if (st \<noteq> 200 \<and> st \<noteq> 201) \<or> \<not> truthy data then Inr None
              else bind_exn (py_get data ''commit'' (JDict [])) (\<lambda>commit_data.
                   bind_exn (py_get commit_data ''sha'' (JStr [])) (\<lambda>c_sha.
                   bind_exn (py_get commit_data ''message'' (JStr (commit_message_of change))) (\<lambda>c_msg.
                   bind_exn (py_get commit_data ''html_url'' (JStr [])) (\<lambda>c_url.
                     Inr (Some \<lparr>sha = c_sha, commit_message = c_msg, html_url = c_url\<rparr>))))))"
    by (auto simp: ret_def lift_def split: prod.splits)
  have p: "write_request token owner repo branch_name change enc v_sha
           = \<lparr>req_auth = ''Bearer '' @ token, req_method = ''PUT'',
              req_endpoint = repos_url owner repo @ ''/contents/'' @ py_str (fc_path change),
              req_params = [],
              req_json = JDict (if truthy v_sha
                                then [(''message'', JStr (commit_message_of change)), (''content'', JStr enc),
                                      (''branch'', JStr branch_name)] @ [(''sha'', v_sha)]
                                else [(''message'', JStr (commit_message_of change)), (''content'', JStr enc),
                                      (''branch'', JStr branch_name)])\<rparr>"
    by (simp add: write_request_def contents_url_def)
  show ?thesis
    unfolding create_or_update_file_def enc bind_lift_Inr Let_def p
    by (subst request_then[OF f]) (simp only: Let_def)
qed

lemma probe_trace:
  "\<exists>r. get_file_content W (enter_client token) owner repo path (Some branch_name) tr
          = (r, tr @ [GitHubCall (probe_request token owner repo branch_name path)
                        (gh_respond W tr (probe_request token owner repo branch_name path))])
      \<and> (\<forall>c s. r = Inr (c, s) \<longrightarrow>
             s = probed_sha (gh_respond W tr (probe_request token owner repo branch_name path)))"
proof -
  let ?a = "gh_respond W tr (probe_request token owner repo branch_name path)"
  show ?thesis
  proof (cases ?a)
    case (Inl e)
    then show ?thesis unfolding get_file_content_run Let_def by simp
  next
    case (Inr sd)
    obtain st data where sd: "sd = (st, data)" by (cases sd)
    show ?thesis
      unfolding get_file_content_run Let_def using Inr sd
      by (auto dest!: bind_exn_Inr)
  qed
qed

lemma write_trace:
  assumes enc: "py_b64encode W (fc_content change) = Inr enc"
  shows "\<exists>r. create_or_update_file W (enter_client token) owner repo (fc_path change) (fc_content change)
          (commit_message_of change) branch_name v_sha tr
        = (r, tr @ [GitHubCall (write_request token owner repo branch_name change enc v_sha)
                      (gh_respond W tr (write_request token owner repo branch_name change enc v_sha))])
      \<and> (\<forall>c. r = Inr c \<longrightarrow>
             (c \<noteq> None) = write_accepted (gh_respond W tr (write_request token owner repo branch_name change enc v_sha)))"
proof -
  let ?a = "gh_respond W tr (write_request token owner repo branch_name change enc v_sha)"
  show ?thesis
  proof (cases ?a)
    case (Inl e)
    then show ?thesis unfolding create_or_update_file_run[OF enc] Let_def by simp
  next
    case (Inr sd)
    obtain st data where sd: "sd = (st, data)" by (cases sd)
    show ?thesis
      unfolding create_or_update_file_run[OF enc] Let_def using Inr sd
      by (auto dest!: bind_exn_Inr)
  qed
qed

lemma write_not_encodable:
  "py_b64encode W (fc_content change) = Inl e \<Longrightarrow>
   create_or_update_file W c owner repo (fc_path change) (fc_content change) msg branch_name v_sha tr = (Inl e, tr)"
  by (simp add: create_or_update_file_def bind_io_def lift_def)

subsection \<open>One round of the commit loop\<close>

lemma commit_message_eq:
  "(if fc_action change = JStr ''create'' then ''Create'' else ''Update'') @ '' '' @ py_str (fc_path change)
     = commit_message_of change"
  by (simp add: commit_message_of_def)

lemma commit_change_update:
  assumes upd: "fc_action change = JStr ''update''"
  shows "commit_change W (enter_client token) owner repo branch_name change tr =
     (case get_file_content W (enter_client token) owner repo (fc_path change) (Some branch_name) tr of
        (Inl e, tr1) \<Rightarrow> (Inl e, tr1)
      | (Inr (c, s), tr1) \<Rightarrow>
          create_or_update_file W (enter_client token) owner repo (fc_path change) (fc_content change)
            (commit_message_of change) branch_name s tr1)"
  unfolding commit_change_def commit_message_eq
  by (simp add: upd bind_io_def ret_def split: prod.splits sum.splits)

lemma commit_change_other:
  assumes other: "fc_action change \<noteq> JStr ''update''"
  shows "commit_change W (enter_client token) owner repo branch_name change tr =
          create_or_update_file W (enter_client token) owner repo (fc_path change) (fc_content change)
            (commit_message_of change) branch_name JNull tr"
  unfolding commit_change_def commit_message_eq
  by (simp add: other bind_io_def ret_def)

lemma commit_change_events:
  "\<exists>new. snd (commit_change W (enter_client token) owner repo branch_name change tr) = tr @ new
       \<and> commit_events W token owner repo branch_name change tr
           (fst (commit_change W (enter_client token) owner repo branch_name change tr)) new"
proof (cases "fc_action change = JStr ''update''")
  case upd: True
  let ?probe = "probe_request token owner repo branch_name (fc_path change)"
  let ?a = "gh_respond W tr ?probe"
  let ?tr1 = "tr @ [GitHubCall ?probe ?a]"
  from probe_trace[of W token owner repo "fc_path change" branch_name tr] obtain r where
    r: "get_file_content W (enter_client token) owner repo (fc_path change) (Some branch_name) tr = (r, ?tr1)"
       "\<forall>c s. r = Inr (c, s) \<longrightarrow> s = probed_sha ?a" by blast
  show ?thesis
  proof (cases r)
    case (Inl e)
    have "commit_change W (enter_client token) owner repo branch_name change tr = (Inl e, ?tr1)"
      unfolding commit_change_update[OF upd] r(1) Inl by simp
    then show ?thesis using upd
      by (intro exI[of _ "[GitHubCall ?probe ?a]"]) (simp add: commit_events_def Let_def)
  next
    case (Inr cs)
    obtain c s where cs: "cs = (c, s)" by (cases cs)
    with Inr r have s: "s = probed_sha ?a" by simp
    have cc: "commit_change W (enter_client token) owner repo branch_name change tr
             = create_or_update_file W (enter_client token) owner repo (fc_path change) (fc_content change)
                 (commit_message_of change) branch_name (probed_sha ?a) ?tr1"
      unfolding commit_change_update[OF upd] r(1) Inr cs s by simp
    show ?thesis
    proof (cases "py_b64encode W (fc_content change)")
      case (Inl e)
      have "commit_change W (enter_client token) owner repo branch_name change tr = (Inl e, ?tr1)"
        unfolding cc by (rule write_not_encodable[OF Inl])
      then show ?thesis using upd
        by (intro exI[of _ "[GitHubCall ?probe ?a]"]) (simp add: commit_events_def Let_def)
    next
      case (Inr enc)
      let ?w = "write_request token owner repo branch_name change enc (probed_sha ?a)"
      let ?b = "gh_respond W ?tr1 ?w"
      from write_trace[OF Inr, of token owner repo branch_name "probed_sha ?a" ?tr1] obtain r2 where
        r2: "create_or_update_file W (enter_client token) owner repo (fc_path change) (fc_content change)
               (commit_message_of change) branch_name (probed_sha ?a) ?tr1
             = (r2, ?tr1 @ [GitHubCall ?w ?b])"
            "\<forall>c. r2 = Inr c \<longrightarrow> (c \<noteq> None) = write_accepted ?b" by blast
      have run: "commit_change W (enter_client token) owner repo branch_name change tr
                 = (r2, tr @ [GitHubCall ?probe ?a, GitHubCall ?w ?b])"
        unfolding cc r2(1) by simp
      have acc: "isl r2 \<or> (projr r2 \<noteq> None) = write_accepted ?b"
        using r2(2) by (cases r2) simp_all
      have "commit_events W token owner repo branch_name change tr r2 [GitHubCall ?probe ?a, GitHubCall ?w ?b]"
        unfolding commit_events_def Let_def using upd Inr acc by auto
      then show ?thesis unfolding run by (intro exI[of _ "[GitHubCall ?probe ?a, GitHubCall ?w ?b]"]) simp
    qed
  qed
next
  case other: False
  note cc = commit_change_other[OF other, of W token owner repo branch_name tr]
  show ?thesis
  proof (cases "py_b64encode W (fc_content change)")
    case (Inl e)
    have "commit_change W (enter_client token) owner repo branch_name change tr = (Inl e, tr)"
      unfolding cc by (rule write_not_encodable[OF Inl])
    then show ?thesis using other
      by (intro exI[of _ "[]"]) (simp add: commit_events_def)
  next
    case (Inr enc)
    let ?w = "write_request token owner repo branch_name change enc JNull"
    let ?b = "gh_respond W tr ?w"
    from write_trace[OF Inr, of token owner repo branch_name JNull tr] obtain r2 where
      r2: "create_or_update_file W (enter_client token) owner repo (fc_path change) (fc_content change)
             (commit_message_of change) branch_name JNull tr
           = (r2, tr @ [GitHubCall ?w ?b])"
          "\<forall>c. r2 = Inr c \<longrightarrow> (c \<noteq> None) = write_accepted ?b" by blast
    have run: "commit_change W (enter_client token) owner repo branch_name change tr
                 = (r2, tr @ [GitHubCall ?w ?b])"
      unfolding cc r2(1) by simp
    have acc: "isl r2 \<or> (projr r2 \<noteq> None) = write_accepted ?b"
      using r2(2) by (cases r2) simp_all
    have "commit_events W token owner repo branch_name change tr r2 [GitHubCall ?w ?b]"
      unfolding commit_events_def using other Inr acc by auto
    then show ?thesis unfolding run by (intro exI[of _ "[GitHubCall ?w ?b]"]) simp
  qed
qed

subsection \<open>The loop and the result\<close>













subsection \<open>The writes of the commit stage, whatever its outcome\<close>










subsection \<open>From the edits of a run to its result\<close>
















subsection \<open>The SHA of a write\<close>

lemma request_sha_write:
  "request_sha (write_request token owner repo branch_name change enc v_sha)
     = (if truthy v_sha then Some v_sha else None)"
  by (simp add: request_sha_def write_request_def)

lemma method_write_request [simp]:
  "req_method (write_request token owner repo branch_name change enc v_sha) = ''PUT''"
  by (simp add: write_request_def)

lemma method_probe_request [simp]:
  "req_method (probe_request token owner repo branch_name path) = ''GET''"
  by (simp add: probe_request_def)

text \<open>
  Claim C7, as the code has it. One round of the commit loop reads the file first
  exactly when the action of the edit is \<open>update\<close>, and sends at most one write; the
  write carries the SHA found by that read when there is one, and no SHA otherwise:
  for any other action, and for an \<open>update\<close> whose read found no file.
\<close>

theorem update_write_carries_probed_sha:
  "\<exists>new. snd (commit_change W (enter_client token) owner repo branch_name change tr) = tr @ new
     \<and> github_requests new
         = (if fc_action change = JStr ''update''
            then [probe_request token owner repo branch_name (fc_path change)] else [])
           @ map fst (write_calls new)
     \<and> length (write_calls new) \<le> 1
     \<and> list_all (\<lambda>w. request_sha (fst w) = expected_sha W token owner repo branch_name change tr)
         (write_calls new)"
proof -
  from commit_change_events[of W token owner repo branch_name change tr] obtain new where
    n: "snd (commit_change W (enter_client token) owner repo branch_name change tr) = tr @ new"
    and ev: "commit_events W token owner repo branch_name change tr
           (fst (commit_change W (enter_client token) owner repo branch_name change tr)) new" by blast
  have "github_requests new
         = (if fc_action change = JStr ''update''
            then [probe_request token owner repo branch_name (fc_path change)] else [])
           @ map fst (write_calls new)
     \<and> length (write_calls new) \<le> 1
     \<and> list_all (\<lambda>w. request_sha (fst w) = expected_sha W token owner repo branch_name change tr)
         (write_calls new)"
  proof (cases "fc_action change = JStr ''update''")
    case True
    with ev show ?thesis
      unfolding commit_events_def Let_def
      by (auto simp: request_sha_write expected_sha_def Let_def)
  next
    case False
    with ev show ?thesis
      unfolding commit_events_def Let_def
      by (auto simp: request_sha_write expected_sha_def)
  qed
  with n show ?thesis by blast
qed

text \<open>An \<open>update\<close> of a file that exists: the read, then the write with the SHA read.\<close>

theorem update_write_carries_probed_sha_witness:
  "fc_action update_b = JStr ''update''
   \<and> github_requests (snd (commit_change world_with_file (enter_client ''token'') ''o'' ''r'' ''new'' update_b []))
       = [probe_request ''token'' ''o'' ''r'' ''new'' (JStr ''b.py''),
          write_request ''token'' ''o'' ''r'' ''new'' update_b ''eQ=='' (JStr ''s1'')]
   \<and> list_all (\<lambda>w. request_sha (fst w) = Some (JStr ''s1''))
        (write_calls (snd (commit_change world_with_file (enter_client ''token'') ''o'' ''r'' ''new'' update_b [])))"
proof -
  let ?run = "commit_change world_with_file (enter_client ''token'') ''o'' ''r'' ''new'' update_b []"
  have a: "fc_action update_b = JStr ''update''" by (simp add: update_b_def)
  have e: "expected_sha world_with_file ''token'' ''o'' ''r'' ''new'' update_b [] = Some (JStr ''s1'')"
    by code_simp
  have w: "map fst (write_calls (snd ?run)) = [write_request ''token'' ''o'' ''r'' ''new'' update_b ''eQ=='' (JStr ''s1'')]"
    by code_simp
  have p: "fc_path update_b = JStr ''b.py''" by (simp add: update_b_def)
  from update_write_carries_probed_sha[of world_with_file "''token''" "''o''" "''r''" "''new''" update_b "[]"]
  have "github_requests (snd ?run)
         = [probe_request ''token'' ''o'' ''r'' ''new'' (JStr ''b.py'')] @ map fst (write_calls (snd ?run))
      \<and> list_all (\<lambda>w. request_sha (fst w) = Some (JStr ''s1'')) (write_calls (snd ?run))"
    unfolding e using a p by auto
  with a w show ?thesis by simp
qed

text \<open>
  The claim as the specification words it does not hold. The model answers with a
  \<open>create\<close> of \<open>a.py\<close> and an \<open>update\<close> of \<open>b.py\<close>, and neither file exists: both are
  committed, the write of the update carries no SHA, and \<open>a.py\<close> is never read.
\<close>

theorem update_of_missing_file_carries_no_sha:
  "map fc_action (fst (projr (fst (generate_edits world_two_files example_user_with_key ''fix bug'' None None None
                                     (enter_client ''token'') ''o'' ''r'' (JStr ''main'') []))))
     = [JStr ''create'', JStr ''update'']
   \<and> changed_files (projr (fst (execute world_two_files example_user_with_key ''fix bug'' None None True None None None [])))
     = Some [JStr ''a.py'', JStr ''b.py'']
   \<and> map (\<lambda>w. (req_endpoint (fst w), request_sha (fst w)))
       (write_calls (snd (execute world_two_files example_user_with_key ''fix bug'' None None True None None None [])))
     = [(''/repos/o/r/contents/a.py'', None), (''/repos/o/r/contents/b.py'', None)]
   \<and> map req_endpoint
       (filter (\<lambda>req. req_method req = ''GET'' \<and> prefix ''/repos/o/r/contents/'' (req_endpoint req))
          (github_requests (snd (execute world_two_files example_user_with_key ''fix bug'' None None True None None None []))))
     = [''/repos/o/r/contents/b.py'']"
  by code_simp

end
